theory Spec2Isabelle
  imports Main "HOL-Library.AList" "HOL-Library.Char_ord" "HOL-Library.List_Lexorder"
begin

section \<open>Python values, exceptions and the JSON store\<close>

text \<open>
  The fields of the three dataclasses are annotated \<open>str\<close> and \<open>int\<close>, but nothing
  enforces the annotations: \<open>from_dict\<close> and \<open>setattr\<close> put whatever value they are
  given into a field, and \<open>validate\<close> checks \<open>isinstance\<close> itself. A field is
  therefore a \<open>pyval\<close>: \<open>None\<close>, an integer or a string, the scalar values a flat
  JSON record can carry. \<open>bool\<close> is a subclass of \<open>int\<close> in Python with
  \<open>True == 1\<close> and \<open>False == 0\<close>, and no operation of this program tells them apart
  (\<open>isinstance(v, int)\<close>, \<open>int(v)\<close>, comparison, hashing and truthiness agree), so
  \<open>True\<close> and \<open>False\<close> are \<open>PInt 1\<close> and \<open>PInt 0\<close>. Floating-point numbers and
  nested lists or objects as field values are outside the model. Strings are byte
  strings.
\<close>

datatype pyval = PNone | PInt int | PStr string

datatype py_error = ValueError | KeyError | TypeError | AttributeError

text \<open>
  An element of a stored collection, as \<open>json.load\<close> returns it: a JSON object
  (a \<open>dict\<close> with string keys, read with \<open>map_of\<close>) or a value that is not an
  object.
\<close>

datatype json = JObject "(string \<times> pyval) list" | JValue pyval

text \<open>
  The backing file of a manager: missing, unreadable or not JSON, a JSON list, or a JSON
  document that is not a list. \<open>json.dump\<close> followed by \<open>json.load\<close> is taken to return
  the data written, and a write to succeed.
\<close>

datatype json_file = Absent | Corrupt | JsonList "json list" | JsonOther

definition load_json :: "json_file \<Rightarrow> json list" where
  "load_json f = (case f of
      Absent \<Rightarrow> []
    | Corrupt \<Rightarrow> []
    | JsonOther \<Rightarrow> []
    | JsonList data \<Rightarrow> data)"

definition save_json :: "json list \<Rightarrow> json_file" where
  "save_json data = JsonList data"

subsection \<open>Strings\<close>

text \<open>\<open>str.isspace\<close> on the ASCII range: \<open>\t \n \v \f \r\<close>, \<open>0x1c\<close> to \<open>0x1f\<close>, space.\<close>

definition isspace :: "char \<Rightarrow> bool" where
  "isspace c = (let n = (of_char c :: nat) in (9 \<le> n \<and> n \<le> 13) \<or> (28 \<le> n \<and> n \<le> 32))"

definition strip :: "string \<Rightarrow> string" where
  "strip s = rev (dropWhile isspace (rev (dropWhile isspace s)))"

definition is_digit :: "char \<Rightarrow> bool" where
  "is_digit c = (48 \<le> (of_char c :: nat) \<and> (of_char c :: nat) \<le> 57)"

definition digit_val :: "char \<Rightarrow> nat" where
  "digit_val c = of_char c - 48"

text \<open>Decimal digits, with single underscores allowed between two digits.\<close>

fun digits_ok :: "string \<Rightarrow> bool" where
  "digits_ok [] = False"
| "digits_ok [c] = is_digit c"
| "digits_ok (c # d # r) =
     (is_digit c \<and> (if d = CHR ''_'' then digits_ok r else digits_ok (d # r)))"

definition digits_value :: "string \<Rightarrow> int" where
  "digits_value s = foldl (\<lambda>a c. 10 * a + int (digit_val c)) 0 (filter is_digit s)"

text \<open>
  \<open>int(s)\<close> for a string: surrounding whitespace, an optional sign, decimal digits.
  (The length limit of recent Python versions on the number of digits is not modelled.)
\<close>

definition int_of_str :: "string \<Rightarrow> py_error + int" where
  "int_of_str s =
     (case strip s of
        [] \<Rightarrow> Inl ValueError
      | c # r \<Rightarrow>
          if c = CHR ''-'' then (if digits_ok r then Inr (- digits_value r) else Inl ValueError)
          else if c = CHR ''+'' then (if digits_ok r then Inr (digits_value r) else Inl ValueError)
          else if digits_ok (c # r) then Inr (digits_value (c # r)) else Inl ValueError)"

text \<open>\<open>int(v)\<close>: \<open>None\<close> raises \<open>TypeError\<close>, a string is parsed.\<close>

fun py_int :: "pyval \<Rightarrow> py_error + int" where
  "py_int PNone = Inl TypeError"
| "py_int (PInt n) = Inr n"
| "py_int (PStr s) = int_of_str s"

text \<open>Truthiness: \<open>None\<close>, \<open>0\<close> and the empty string are false.\<close>

fun truthy :: "pyval \<Rightarrow> bool" where
  "truthy PNone = False"
| "truthy (PInt n) = (n \<noteq> 0)"
| "truthy (PStr s) = (s \<noteq> [])"

text \<open>\<open>not isinstance(v, str) or not v.strip()\<close>\<close>

fun not_str_or_blank :: "pyval \<Rightarrow> bool" where
  "not_str_or_blank (PStr s) = (strip s = [])"
| "not_str_or_blank _ = True"

text \<open>
  \<open>a >= b\<close>: integers by value, strings lexicographically; any other pair of these
  values raises \<open>TypeError\<close>.
\<close>

fun py_ge :: "pyval \<Rightarrow> pyval \<Rightarrow> py_error + bool" where
  "py_ge (PInt a) (PInt b) = Inr (a \<ge> b)"
| "py_ge (PStr s) (PStr u) = Inr (s \<ge> u)"
| "py_ge _ _ = Inl TypeError"

section \<open>Hotel\<close>

record hotel =
  hotel_name :: pyval
  hotel_address :: pyval
  total_rooms :: pyval
  rooms_available :: pyval
  hotel_id :: pyval

text \<open>\<open>Hotel.validate\<close>: every failure is a \<open>ValueError\<close>.\<close>

definition Hotel_validate :: "hotel \<Rightarrow> py_error + unit" where
  "Hotel_validate h =
     (if not_str_or_blank (hotel_name h) then Inl ValueError
      else if not_str_or_blank (hotel_address h) then Inl ValueError
      else case total_rooms h of
          PInt t \<Rightarrow>
            if t \<le> 0 then Inl ValueError
            else (case rooms_available h of
                PInt a \<Rightarrow>
                  if a < 0 then Inl ValueError
                  else if a > t then Inl ValueError
                  else Inr ()
              | _ \<Rightarrow> Inl ValueError)
        | _ \<Rightarrow> Inl ValueError)"

text \<open>
  The generated \<open>__init__\<close> followed by \<open>__post_init__\<close>: \<open>rooms_available == -1\<close> is
  replaced by \<open>total_rooms\<close>, then the object is validated.
\<close>

definition Hotel_init :: "pyval \<Rightarrow> pyval \<Rightarrow> pyval \<Rightarrow> pyval \<Rightarrow> pyval \<Rightarrow> py_error + hotel" where
  "Hotel_init name address tot avail hid =
     (let h = \<lparr>hotel_name = name, hotel_address = address, total_rooms = tot,
                rooms_available = (if avail = PInt (- 1) then tot else avail),
                hotel_id = hid\<rparr>
      in case Hotel_validate h of Inl e \<Rightarrow> Inl e | Inr _ \<Rightarrow> Inr h)"

definition Hotel_to_dict :: "hotel \<Rightarrow> json" where
  "Hotel_to_dict h = JObject
     [(''name'', hotel_name h), (''address'', hotel_address h),
      (''total_rooms'', total_rooms h), (''rooms_available'', rooms_available h),
      (''hotel_id'', hotel_id h)]"

text \<open>
  \<open>Hotel.from_dict\<close>. \<open>data.keys()\<close> on a value that is not a \<open>dict\<close> raises
  \<open>AttributeError\<close>; a missing required key raises \<open>ValueError\<close>.
\<close>

definition Hotel_from_dict :: "json \<Rightarrow> py_error + hotel" where
  "Hotel_from_dict data =
     (case data of
        JValue v \<Rightarrow> Inl AttributeError
      | JObject d \<Rightarrow>
          (case (map_of d ''name'', map_of d ''address'', map_of d ''total_rooms'',
                 map_of d ''hotel_id'') of
             (Some name, Some address, Some tot, Some hid) \<Rightarrow>
               (case py_int tot of
                  Inl e \<Rightarrow> Inl e
                | Inr t \<Rightarrow>
                    (case py_int (case map_of d ''rooms_available'' of
                                    None \<Rightarrow> tot | Some r \<Rightarrow> r) of
                       Inl e \<Rightarrow> Inl e
                     | Inr a \<Rightarrow> Hotel_init name address (PInt t) (PInt a) hid))
           | _ \<Rightarrow> Inl ValueError))"

section \<open>Loading a collection\<close>

text \<open>
  The loop of \<open>_load\<close>, the same in the three managers: a record whose parsing raises
  \<open>ValueError\<close>, \<open>KeyError\<close> or \<open>TypeError\<close> is skipped; any other exception leaves the
  loop with the entries stored so far. A \<open>dict\<close> keeps insertion order and an
  assignment to an existing key keeps its position, which is \<open>AList.update\<close>.
\<close>

fun load_records ::
  "(json \<Rightarrow> py_error + 'a) \<Rightarrow> ('a \<Rightarrow> pyval) \<Rightarrow> json list \<Rightarrow> (pyval \<times> 'a) list
    \<Rightarrow> py_error option \<times> (pyval \<times> 'a) list" where
  "load_records from_dict ident [] acc = (None, acc)"
| "load_records from_dict ident (r # rs) acc =
     (case from_dict r of
        Inr x \<Rightarrow> load_records from_dict ident rs (AList.update (ident x) x acc)
      | Inl e \<Rightarrow>
          if e = ValueError \<or> e = KeyError \<or> e = TypeError
          then load_records from_dict ident rs acc
          else (Some e, acc))"

section \<open>HotelManager\<close>

record hotel_manager =
  hotels :: "(pyval \<times> hotel) list"
  hotels_file :: json_file

definition HotelManager_load :: "hotel_manager \<Rightarrow> py_error option \<times> hotel_manager" where
  "HotelManager_load hm =
     (case load_records Hotel_from_dict hotel_id (load_json (hotels_file hm)) [] of
        (exc, hs) \<Rightarrow> (exc, hm\<lparr>hotels := hs\<rparr>))"

definition HotelManager_save :: "hotel_manager \<Rightarrow> hotel_manager" where
  "HotelManager_save hm =
     hm\<lparr>hotels_file := save_json (map (\<lambda>(k, h). Hotel_to_dict h) (hotels hm))\<rparr>"

text \<open>The constructor: an exception of \<open>_load\<close> leaves no manager.\<close>

definition HotelManager_init :: "json_file \<Rightarrow> py_error + hotel_manager" where
  "HotelManager_init f =
     (case HotelManager_load \<lparr>hotels = [], hotels_file = f\<rparr> of
        (None, hm) \<Rightarrow> Inr hm
      | (Some e, hm) \<Rightarrow> Inl e)"

text \<open>
  The operations return what the method returns (\<open>Inr\<close>) or the exception that leaves it
  (\<open>Inl\<close>), with the manager as the call leaves it. The identifier that
  \<open>_generate_id\<close> draws is the argument \<open>new_id\<close>. Every \<open>pyval\<close> is hashable, so a
  lookup by any of them is defined.
\<close>

definition create_hotel ::
  "hotel_manager \<Rightarrow> string \<Rightarrow> pyval \<Rightarrow> pyval \<Rightarrow> pyval \<Rightarrow> (py_error + hotel) \<times> hotel_manager" where
  "create_hotel hm new_id name address tot =
     (case Hotel_init name address tot (PInt (- 1)) (PStr new_id) of
        Inl e \<Rightarrow> (Inl e, hm)
      | Inr h \<Rightarrow>
          (Inr h, HotelManager_save (hm\<lparr>hotels := AList.update (hotel_id h) h (hotels hm)\<rparr>)))"

definition get_hotel :: "hotel_manager \<Rightarrow> pyval \<Rightarrow> hotel option" where
  "get_hotel hm hid = map_of (hotels hm) hid"

definition delete_hotel :: "hotel_manager \<Rightarrow> pyval \<Rightarrow> bool \<times> hotel_manager" where
  "delete_hotel hm hid =
     (if map_of (hotels hm) hid = None then (False, hm)
      else (True, HotelManager_save (hm\<lparr>hotels := AList.delete hid (hotels hm)\<rparr>)))"

text \<open>The \<open>setattr\<close> loop of \<open>modify_hotel\<close>: unknown keys are ignored.\<close>

fun hotel_setattrs :: "hotel \<Rightarrow> (string \<times> pyval) list \<Rightarrow> hotel" where
  "hotel_setattrs h [] = h"
| "hotel_setattrs h ((key, v) # kwargs) =
     hotel_setattrs
       (if key = ''name'' then h\<lparr>hotel_name := v\<rparr>
        else if key = ''address'' then h\<lparr>hotel_address := v\<rparr>
        else if key = ''total_rooms'' then h\<lparr>total_rooms := v\<rparr>
        else if key = ''rooms_available'' then h\<lparr>rooms_available := v\<rparr>
        else h)
       kwargs"

text \<open>
  \<open>modify_hotel\<close> mutates the object held by the collection, so the collection holds
  the modified hotel when validation runs; on failure \<open>_load\<close> replaces the collection.
\<close>

definition modify_hotel ::
  "hotel_manager \<Rightarrow> pyval \<Rightarrow> (string \<times> pyval) list
    \<Rightarrow> (py_error + hotel option) \<times> hotel_manager" where
  "modify_hotel hm hid kwargs =
     (case get_hotel hm hid of
        None \<Rightarrow> (Inr None, hm)
      | Some hotel \<Rightarrow>
          (let hotel' = hotel_setattrs hotel kwargs;
               hm' = hm\<lparr>hotels := AList.update hid hotel' (hotels hm)\<rparr>
           in case Hotel_validate hotel' of
                Inl e \<Rightarrow>
                  if e = ValueError
                  then (case HotelManager_load hm' of
                          (None, hm'') \<Rightarrow> (Inr None, hm'')
                        | (Some e', hm'') \<Rightarrow> (Inl e', hm''))
                  else (Inl e, hm')
              | Inr _ \<Rightarrow> (Inr (Some hotel'), HotelManager_save hm')))"

definition reserve_room :: "hotel_manager \<Rightarrow> pyval \<Rightarrow> (py_error + bool) \<times> hotel_manager" where
  "reserve_room hm hid =
     (case get_hotel hm hid of
        None \<Rightarrow> (Inr False, hm)
      | Some hotel \<Rightarrow>
          (case rooms_available hotel of
             PInt a \<Rightarrow>
               if a \<le> 0 then (Inr False, hm)
               else (Inr True,
                     HotelManager_save
                       (hm\<lparr>hotels := AList.update hid
                                        (hotel\<lparr>rooms_available := PInt (a - 1)\<rparr>) (hotels hm)\<rparr>))
           | _ \<Rightarrow> (Inl TypeError, hm)))"

definition cancel_room :: "hotel_manager \<Rightarrow> pyval \<Rightarrow> (py_error + bool) \<times> hotel_manager" where
  "cancel_room hm hid =
     (case get_hotel hm hid of
        None \<Rightarrow> (Inr False, hm)
      | Some hotel \<Rightarrow>
          (case py_ge (rooms_available hotel) (total_rooms hotel) of
             Inl e \<Rightarrow> (Inl e, hm)
           | Inr True \<Rightarrow> (Inr False, hm)
           | Inr False \<Rightarrow>
               (case rooms_available hotel of
                  PInt a \<Rightarrow>
                    (Inr True,
                     HotelManager_save
                       (hm\<lparr>hotels := AList.update hid
                                        (hotel\<lparr>rooms_available := PInt (a + 1)\<rparr>) (hotels hm)\<rparr>))
                | _ \<Rightarrow> (Inl TypeError, hm))))"

section \<open>Customer\<close>

record customer =
  customer_name :: pyval
  email :: pyval
  customer_id :: pyval

text \<open>\<open>s.split(sep)\<close> for a separator of one character: never the empty list.\<close>

fun str_split :: "char \<Rightarrow> string \<Rightarrow> string list" where
  "str_split sep [] = [[]]"
| "str_split sep (c # cs) =
     (if c = sep then [] # str_split sep cs
      else (case str_split sep cs of
              [] \<Rightarrow> [[c]]
            | w # ws \<Rightarrow> (c # w) # ws))"

text \<open>
  The second test of \<open>Customer.validate\<close>:
  \<open>not isinstance(email, str) or "@" not in email or "." not in email.split("@")[-1]\<close>
\<close>

fun bad_email :: "pyval \<Rightarrow> bool" where
  "bad_email (PStr s) =
     (CHR ''@'' \<notin> set s \<or> CHR ''.'' \<notin> set (last (str_split (CHR ''@'') s)))"
| "bad_email _ = True"

definition Customer_validate :: "customer \<Rightarrow> py_error + unit" where
  "Customer_validate c =
     (if not_str_or_blank (customer_name c) then Inl ValueError
      else if bad_email (email c) then Inl ValueError
      else Inr ())"

definition Customer_init :: "pyval \<Rightarrow> pyval \<Rightarrow> pyval \<Rightarrow> py_error + customer" where
  "Customer_init name mail cid =
     (let c = \<lparr>customer_name = name, email = mail, customer_id = cid\<rparr>
      in case Customer_validate c of Inl e \<Rightarrow> Inl e | Inr _ \<Rightarrow> Inr c)"

definition Customer_to_dict :: "customer \<Rightarrow> json" where
  "Customer_to_dict c = JObject
     [(''name'', customer_name c), (''email'', email c), (''customer_id'', customer_id c)]"

definition Customer_from_dict :: "json \<Rightarrow> py_error + customer" where
  "Customer_from_dict data =
     (case data of
        JValue v \<Rightarrow> Inl AttributeError
      | JObject d \<Rightarrow>
          (case (map_of d ''name'', map_of d ''email'', map_of d ''customer_id'') of
             (Some name, Some mail, Some cid) \<Rightarrow> Customer_init name mail cid
           | _ \<Rightarrow> Inl ValueError))"

section \<open>CustomerManager\<close>

record customer_manager =
  customers :: "(pyval \<times> customer) list"
  customers_file :: json_file

definition CustomerManager_load :: "customer_manager \<Rightarrow> py_error option \<times> customer_manager" where
  "CustomerManager_load cm =
     (case load_records Customer_from_dict customer_id (load_json (customers_file cm)) [] of
        (exc, cs) \<Rightarrow> (exc, cm\<lparr>customers := cs\<rparr>))"

definition CustomerManager_save :: "customer_manager \<Rightarrow> customer_manager" where
  "CustomerManager_save cm =
     cm\<lparr>customers_file := save_json (map (\<lambda>(k, c). Customer_to_dict c) (customers cm))\<rparr>"

definition CustomerManager_init :: "json_file \<Rightarrow> py_error + customer_manager" where
  "CustomerManager_init f =
     (case CustomerManager_load \<lparr>customers = [], customers_file = f\<rparr> of
        (None, cm) \<Rightarrow> Inr cm
      | (Some e, cm) \<Rightarrow> Inl e)"

definition create_customer ::
  "customer_manager \<Rightarrow> string \<Rightarrow> pyval \<Rightarrow> pyval \<Rightarrow> (py_error + customer) \<times> customer_manager" where
  "create_customer cm new_id name mail =
     (case Customer_init name mail (PStr new_id) of
        Inl e \<Rightarrow> (Inl e, cm)
      | Inr c \<Rightarrow>
          (Inr c,
           CustomerManager_save (cm\<lparr>customers := AList.update (customer_id c) c (customers cm)\<rparr>)))"

definition get_customer :: "customer_manager \<Rightarrow> pyval \<Rightarrow> customer option" where
  "get_customer cm cid = map_of (customers cm) cid"

section \<open>Reservation\<close>

record reservation =
  res_customer_id :: pyval
  res_hotel_id :: pyval
  check_in :: pyval
  check_out :: pyval
  reservation_id :: pyval

text \<open>
  A calendar date is year, month, day. \<open>date.fromisoformat\<close> is modelled for the format
  that the error message of \<open>Reservation.validate\<close> names, \<open>YYYY-MM-DD\<close>, with the year
  from 1 to 9999; the further ISO 8601 spellings that later Python versions accept are
  not modelled. A value that is not a string raises \<open>TypeError\<close>.
\<close>

type_synonym date = "nat \<times> nat \<times> nat"

definition digits_nat :: "string \<Rightarrow> nat" where
  "digits_nat s = foldl (\<lambda>a c. 10 * a + digit_val c) 0 s"

definition days_in_month :: "nat \<Rightarrow> nat \<Rightarrow> nat" where
  "days_in_month y m =
     (if m = 2 then (if y mod 4 = 0 \<and> (y mod 100 \<noteq> 0 \<or> y mod 400 = 0) then 29 else 28)
      else if m = 4 \<or> m = 6 \<or> m = 9 \<or> m = 11 then 30
      else 31)"

definition parse_iso_date :: "string \<Rightarrow> date option" where
  "parse_iso_date s =
     (if length s = 10 \<and> s ! 4 = CHR ''-'' \<and> s ! 7 = CHR ''-''
         \<and> list_all is_digit (take 4 s) \<and> list_all is_digit (take 2 (drop 5 s))
         \<and> list_all is_digit (drop 8 s)
      then (let y = digits_nat (take 4 s); m = digits_nat (take 2 (drop 5 s));
                d = digits_nat (drop 8 s)
            in if 1 \<le> y \<and> 1 \<le> m \<and> m \<le> 12 \<and> 1 \<le> d \<and> d \<le> days_in_month y m
               then Some (y, m, d) else None)
      else None)"

fun date_fromisoformat :: "pyval \<Rightarrow> py_error + date" where
  "date_fromisoformat (PStr s) =
     (case parse_iso_date s of None \<Rightarrow> Inl ValueError | Some d \<Rightarrow> Inr d)"
| "date_fromisoformat _ = Inl TypeError"

text \<open>\<open>a <= b\<close> on dates.\<close>

fun date_le :: "date \<Rightarrow> date \<Rightarrow> bool" where
  "date_le (y1, m1, d1) (y2, m2, d2) =
     (y1 < y2 \<or> (y1 = y2 \<and> (m1 < m2 \<or> (m1 = m2 \<and> d1 \<le> d2))))"

text \<open>
  \<open>Reservation.validate\<close>: the \<open>ValueError\<close> or \<open>TypeError\<close> of either
  \<open>fromisoformat\<close> is caught and raised again as \<open>ValueError\<close>.
\<close>

definition Reservation_validate :: "reservation \<Rightarrow> py_error + unit" where
  "Reservation_validate r =
     (if \<not> truthy (res_customer_id r) then Inl ValueError
      else if \<not> truthy (res_hotel_id r) then Inl ValueError
      else case date_fromisoformat (check_in r) of
          Inl e \<Rightarrow> if e = ValueError \<or> e = TypeError then Inl ValueError else Inl e
        | Inr ci \<Rightarrow>
            (case date_fromisoformat (check_out r) of
               Inl e \<Rightarrow> if e = ValueError \<or> e = TypeError then Inl ValueError else Inl e
             | Inr co \<Rightarrow> if date_le co ci then Inl ValueError else Inr ()))"

definition Reservation_init ::
  "pyval \<Rightarrow> pyval \<Rightarrow> pyval \<Rightarrow> pyval \<Rightarrow> pyval \<Rightarrow> py_error + reservation" where
  "Reservation_init cid hid ci co rid =
     (let r = \<lparr>res_customer_id = cid, res_hotel_id = hid, check_in = ci, check_out = co,
                reservation_id = rid\<rparr>
      in case Reservation_validate r of Inl e \<Rightarrow> Inl e | Inr _ \<Rightarrow> Inr r)"

definition Reservation_to_dict :: "reservation \<Rightarrow> json" where
  "Reservation_to_dict r = JObject
     [(''customer_id'', res_customer_id r), (''hotel_id'', res_hotel_id r),
      (''check_in'', check_in r), (''check_out'', check_out r),
      (''reservation_id'', reservation_id r)]"

definition Reservation_from_dict :: "json \<Rightarrow> py_error + reservation" where
  "Reservation_from_dict data =
     (case data of
        JValue v \<Rightarrow> Inl AttributeError
      | JObject d \<Rightarrow>
          (case (map_of d ''customer_id'', map_of d ''hotel_id'', map_of d ''check_in'',
                 map_of d ''check_out'', map_of d ''reservation_id'') of
             (Some cid, Some hid, Some ci, Some co, Some rid) \<Rightarrow>
               Reservation_init cid hid ci co rid
           | _ \<Rightarrow> Inl ValueError))"

section \<open>ReservationManager\<close>

text \<open>
  The reservation manager refers to the hotel manager and the customer manager it was
  given, or to none; the managers it refers to are part of its state here, so a call
  through it that changes the hotel manager is visible in \<open>hotel_manager\<close>.
\<close>

record reservation_manager =
  reservations :: "(pyval \<times> reservation) list"
  reservations_file :: json_file
  hotel_manager :: "hotel_manager option"
  customer_manager :: "customer_manager option"

definition ReservationManager_load ::
  "reservation_manager \<Rightarrow> py_error option \<times> reservation_manager" where
  "ReservationManager_load rm =
     (case load_records Reservation_from_dict reservation_id
             (load_json (reservations_file rm)) [] of
        (exc, rs) \<Rightarrow> (exc, rm\<lparr>reservations := rs\<rparr>))"

definition ReservationManager_save :: "reservation_manager \<Rightarrow> reservation_manager" where
  "ReservationManager_save rm =
     rm\<lparr>reservations_file :=
          save_json (map (\<lambda>(k, r). Reservation_to_dict r) (reservations rm))\<rparr>"

definition ReservationManager_init ::
  "json_file \<Rightarrow> hotel_manager option \<Rightarrow> customer_manager option
    \<Rightarrow> py_error + reservation_manager" where
  "ReservationManager_init f hm cm =
     (case ReservationManager_load
             \<lparr>reservations = [], reservations_file = f, hotel_manager = hm,
              customer_manager = cm\<rparr> of
        (None, rm) \<Rightarrow> Inr rm
      | (Some e, rm) \<Rightarrow> Inl e)"

definition get_reservation :: "reservation_manager \<Rightarrow> pyval \<Rightarrow> reservation option" where
  "get_reservation rm rid = map_of (reservations rm) rid"

text \<open>
  \<open>create_reservation\<close>. \<open>reserved\<close> is the outcome of the block that runs when a hotel
  manager is attached: \<open>Inr False\<close> where the method returns \<open>None\<close> there, \<open>Inr True\<close>
  where it goes on to build the reservation.
\<close>

definition create_reservation ::
  "reservation_manager \<Rightarrow> string \<Rightarrow> pyval \<Rightarrow> pyval \<Rightarrow> pyval \<Rightarrow> pyval
    \<Rightarrow> (py_error + reservation option) \<times> reservation_manager" where
  "create_reservation rm new_id cid hid ci co =
     (if (case customer_manager rm of
            None \<Rightarrow> False
          | Some cm \<Rightarrow> get_customer cm cid = None)
      then (Inr None, rm)
      else
        (let reserved =
               (case hotel_manager rm of
                  None \<Rightarrow> (Inr True, rm)
                | Some hm \<Rightarrow>
                    if get_hotel hm hid = None then (Inr False, rm)
                    else (case reserve_room hm hid of
                            (res, hm') \<Rightarrow> (res, rm\<lparr>hotel_manager := Some hm'\<rparr>)))
         in case reserved of
              (Inl e, rm1) \<Rightarrow> (Inl e, rm1)
            | (Inr False, rm1) \<Rightarrow> (Inr None, rm1)
            | (Inr True, rm1) \<Rightarrow>
                (case Reservation_init cid hid ci co (PStr new_id) of
                   Inl e \<Rightarrow>
                     if e = ValueError
                     then (case hotel_manager rm1 of
                             None \<Rightarrow> (Inr None, rm1)
                           | Some hm1 \<Rightarrow>
                               (case cancel_room hm1 hid of
                                  (Inl e', hm2) \<Rightarrow> (Inl e', rm1\<lparr>hotel_manager := Some hm2\<rparr>)
                                | (Inr b, hm2) \<Rightarrow> (Inr None, rm1\<lparr>hotel_manager := Some hm2\<rparr>)))
                     else (Inl e, rm1)
                 | Inr r \<Rightarrow>
                     (Inr (Some r),
                      ReservationManager_save
                        (rm1\<lparr>reservations :=
                               AList.update (reservation_id r) r (reservations rm1)\<rparr>)))))"

text \<open>
  \<open>cancel_reservation\<close>: the result of \<open>cancel_room\<close> is ignored, so the cancellation
  goes on when the release fails.
\<close>

definition cancel_reservation ::
  "reservation_manager \<Rightarrow> pyval \<Rightarrow> (py_error + bool) \<times> reservation_manager" where
  "cancel_reservation rm rid =
     (case map_of (reservations rm) rid of
        None \<Rightarrow> (Inr False, rm)
      | Some r \<Rightarrow>
          (let released =
                 (case hotel_manager rm of
                    None \<Rightarrow> (Inr True, rm)
                  | Some hm \<Rightarrow>
                      (case cancel_room hm (res_hotel_id r) of
                         (res, hm') \<Rightarrow> (res, rm\<lparr>hotel_manager := Some hm'\<rparr>)))
           in case released of
                (Inl e, rm1) \<Rightarrow> (Inl e, rm1)
              | (Inr b, rm1) \<Rightarrow>
                  (Inr True,
                   ReservationManager_save
                     (rm1\<lparr>reservations := AList.delete rid (reservations rm1)\<rparr>))))"

section \<open>Properties and example states\<close>

text \<open>The invariant of the data model: \<open>0 <= rooms_available <= total_rooms\<close>.\<close>

definition hotel_inv :: "hotel \<Rightarrow> bool" where
  "hotel_inv h =
     (case (rooms_available h, total_rooms h) of
        (PInt a, PInt t) \<Rightarrow> 0 \<le> a \<and> a \<le> t
      | _ \<Rightarrow> False)"

definition hotels_inv :: "hotel_manager \<Rightarrow> bool" where
  "hotels_inv hm = list_all (\<lambda>(k, h). hotel_inv h) (hotels hm)"

text \<open>
  A collection as a manager holds it: the keys are distinct, every entity is stored
  under its own identifier and passes \<open>validate\<close>.
\<close>

definition keyed_valid ::
  "('a \<Rightarrow> pyval) \<Rightarrow> ('a \<Rightarrow> py_error + unit) \<Rightarrow> (pyval \<times> 'a) list \<Rightarrow> bool" where
  "keyed_valid ident validate xs =
     (distinct (map fst xs) \<and> list_all (\<lambda>(k, x). k = ident x \<and> validate x = Inr ()) xs)"

text \<open>The collection in memory is what loading the backing file yields.\<close>

definition in_sync :: "hotel_manager \<Rightarrow> bool" where
  "in_sync hm = (HotelManager_load hm = (None, hm))"

text \<open>\<open>rooms_available\<close> of a hotel, seen through the reservation manager.\<close>

definition hotel_rooms :: "reservation_manager \<Rightarrow> pyval \<Rightarrow> pyval option" where
  "hotel_rooms rm hid =
     (case hotel_manager rm of
        None \<Rightarrow> None
      | Some hm \<Rightarrow> map_option rooms_available (get_hotel hm hid))"

definition ex_hotel :: hotel where
  "ex_hotel = \<lparr>hotel_name = PStr ''H'', hotel_address = PStr ''A'', total_rooms = PInt 2,
                rooms_available = PInt 1, hotel_id = PStr ''h1''\<rparr>"

definition ex_hm :: hotel_manager where
  "ex_hm = \<lparr>hotels = [(PStr ''h1'', ex_hotel)], hotels_file = JsonList [Hotel_to_dict ex_hotel]\<rparr>"

definition ex_rm :: reservation_manager where
  "ex_rm = \<lparr>reservations = [], reservations_file = Absent, hotel_manager = Some ex_hm,
             customer_manager = None\<rparr>"

definition ex_record :: "int \<Rightarrow> (string \<times> pyval) list" where
  "ex_record a = [(''hotel_id'', PStr ''h1''), (''name'', PStr ''H''), (''address'', PStr ''A''),
                  (''total_rooms'', PInt 5), (''rooms_available'', PInt a)]"

text \<open>
  A hotel with one room is created and booked, then \<open>modify_hotel\<close> sets
  \<open>rooms_available\<close> back to 1 while the reservation is still stored.
\<close>

definition ex_refilled :: reservation_manager where
  "ex_refilled =
     (let hm1 = snd (create_hotel \<lparr>hotels = [], hotels_file = Absent\<rparr> ''h1''
                       (PStr ''H'') (PStr ''A'') (PInt 1));
          rm1 = snd (create_reservation
                       \<lparr>reservations = [], reservations_file = Absent,
                        hotel_manager = Some hm1, customer_manager = None\<rparr>
                       ''r1'' (PStr ''c1'') (PStr ''h1'')
                       (PStr ''2026-07-01'') (PStr ''2026-07-05''))
      in rm1\<lparr>hotel_manager :=
               map_option (\<lambda>hm. snd (modify_hotel hm (PStr ''h1'')
                                        [(''rooms_available'', PInt 1)]))
                 (hotel_manager rm1)\<rparr>)"

definition ex_customer :: customer where
  "ex_customer = \<lparr>customer_name = PStr ''Ann'', email = PStr ''ann@x.org'',
                   customer_id = PStr ''c1''\<rparr>"

definition ex_cm :: customer_manager where
  "ex_cm = \<lparr>customers = [(PStr ''c1'', ex_customer)], customers_file = Absent\<rparr>"

definition ex_reservation :: reservation where
  "ex_reservation = \<lparr>res_customer_id = PStr ''c1'', res_hotel_id = PStr ''h1'',
                      check_in = PStr ''2026-07-01'', check_out = PStr ''2026-07-05'',
                      reservation_id = PStr ''r1''\<rparr>"

definition ex_booked :: reservation_manager where
  "ex_booked = \<lparr>reservations = [(PStr ''r1'', ex_reservation)], reservations_file = Absent,
                 hotel_manager = Some ex_hm, customer_manager = Some ex_cm\<rparr>"

text \<open>Two hotels held by a manager whose file does not exist yet.\<close>

definition ex_hm_two :: hotel_manager where
  "ex_hm_two =
     \<lparr>hotels = [(PStr ''h1'', ex_hotel),
                (PStr ''h2'', ex_hotel\<lparr>rooms_available := PInt 0, hotel_id := PStr ''h2''\<rparr>)],
      hotels_file = Absent\<rparr>"

text \<open>A stored reservation whose hotel is no longer in the hotel manager.\<close>

definition ex_orphan :: reservation_manager where
  "ex_orphan = ex_booked\<lparr>hotel_manager := Some \<lparr>hotels = [], hotels_file = JsonList []\<rparr>\<rparr>"

section \<open>Validation\<close>

lemma Hotel_validate_ValueError: "Hotel_validate h = Inl e \<Longrightarrow> e = ValueError"
  by (auto simp: Hotel_validate_def split: if_splits pyval.splits)

lemma Hotel_validate_Inr_iff:
  "Hotel_validate h = Inr u \<longleftrightarrow>
     (\<not> not_str_or_blank (hotel_name h) \<and> \<not> not_str_or_blank (hotel_address h) \<and>
      (\<exists>t a. total_rooms h = PInt t \<and> rooms_available h = PInt a \<and> 0 < t \<and> 0 \<le> a \<and> a \<le> t))"
  by (auto simp: Hotel_validate_def split: if_splits pyval.splits)

lemma Hotel_validate_cases:
  "Hotel_validate h = Inr () \<or> Hotel_validate h = Inl ValueError"
  by (cases "Hotel_validate h") (auto dest: Hotel_validate_ValueError)

text \<open>
  C4, as the code has it. \<open>create_hotel\<close> does not catch the \<open>ValueError\<close> of the
  constructor: for an empty (or blank, or non-string) name or address, or a
  \<open>total_rooms\<close> that is not a positive integer, the exception leaves \<open>create_hotel\<close>
  and reaches the caller; the collection and the backing file are untouched.
\<close>

theorem create_hotel_invalid_raises:
  assumes "not_str_or_blank name \<or> not_str_or_blank address \<or> (\<forall>n. tot = PInt n \<longrightarrow> n \<le> 0)"
  shows "create_hotel hm new_id name address tot = (Inl ValueError, hm)"
proof -
  let ?h = "\<lparr>hotel_name = name, hotel_address = address, total_rooms = tot,
             rooms_available = tot, hotel_id = PStr new_id\<rparr>"
  from assms have "Hotel_validate ?h \<noteq> Inr ()"
    by (auto simp: Hotel_validate_Inr_iff)
  with Hotel_validate_cases [of ?h] have "Hotel_validate ?h = Inl ValueError"
    by blast
  then show ?thesis
    by (simp add: create_hotel_def Hotel_init_def)
qed

theorem create_hotel_invalid_raises_witness:
  "not_str_or_blank (PStr '''') \<and>
   create_hotel ex_hm ''h2'' (PStr '''') (PStr ''A'') (PInt 5) = (Inl ValueError, ex_hm)"
proof -
  have h: "not_str_or_blank (PStr '''') \<or> not_str_or_blank (PStr ''A'')
           \<or> (\<forall>n. PInt 5 = PInt n \<longrightarrow> n \<le> 0)"
    by (simp add: strip_def)
  show ?thesis
    using create_hotel_invalid_raises [OF h, of ex_hm "''h2''"] by (simp add: strip_def)
qed

text \<open>
  C4, as the claim states it, fails: creating a hotel with an empty name does not
  return a failure value, the \<open>ValueError\<close> propagates out of the manager.
\<close>

theorem create_hotel_empty_name_propagates:
  "fst (create_hotel \<lparr>hotels = [], hotels_file = Absent\<rparr> ''h1'' (PStr '''') (PStr ''A'') (PInt 5))
     = Inl ValueError"
  by (simp add: create_hotel_def Hotel_init_def Hotel_validate_def strip_def)

section \<open>Room inventory\<close>

text \<open>
  C5. With \<open>rooms_available == 0\<close>, \<open>reserve_room\<close> returns \<open>False\<close> and leaves the manager
  (collection and file) as it was; with \<open>rooms_available == total_rooms\<close>, \<open>cancel_room\<close>
  returns \<open>False\<close> and leaves the manager as it was.
\<close>

theorem reserve_room_sold_out_cancel_room_full:
  assumes "get_hotel hm hid = Some h"
  shows "(rooms_available h = PInt 0 \<longrightarrow> reserve_room hm hid = (Inr False, hm)) \<and>
         (rooms_available h = PInt t \<and> total_rooms h = PInt t
            \<longrightarrow> cancel_room hm hid = (Inr False, hm))"
  using assms by (simp add: reserve_room_def cancel_room_def)

theorem reserve_room_sold_out_cancel_room_full_witness:
  "reserve_room (ex_hm\<lparr>hotels := [(PStr ''h1'', ex_hotel\<lparr>rooms_available := PInt 0\<rparr>)]\<rparr>) (PStr ''h1'')
     = (Inr False, ex_hm\<lparr>hotels := [(PStr ''h1'', ex_hotel\<lparr>rooms_available := PInt 0\<rparr>)]\<rparr>) \<and>
   cancel_room (ex_hm\<lparr>hotels := [(PStr ''h1'', ex_hotel\<lparr>rooms_available := PInt 2\<rparr>)]\<rparr>) (PStr ''h1'')
     = (Inr False, ex_hm\<lparr>hotels := [(PStr ''h1'', ex_hotel\<lparr>rooms_available := PInt 2\<rparr>)]\<rparr>)"
proof -
  let ?sold = "ex_hotel\<lparr>rooms_available := PInt 0\<rparr>"
  let ?full = "ex_hotel\<lparr>rooms_available := PInt 2\<rparr>"
  have g0: "get_hotel (ex_hm\<lparr>hotels := [(PStr ''h1'', ?sold)]\<rparr>) (PStr ''h1'') = Some ?sold"
    by (simp add: get_hotel_def)
  have g2: "get_hotel (ex_hm\<lparr>hotels := [(PStr ''h1'', ?full)]\<rparr>) (PStr ''h1'') = Some ?full"
    by (simp add: get_hotel_def)
  have r0: "rooms_available ?sold = PInt 0" by simp
  have r2: "rooms_available ?full = PInt 2 \<and> total_rooms ?full = PInt 2"
    by (simp add: ex_hotel_def)
  from reserve_room_sold_out_cancel_room_full [OF g0, of 0] r0
       reserve_room_sold_out_cancel_room_full [OF g2, of 2] r2
  show ?thesis by blast
qed

section \<open>The e-mail test of Customer.validate\<close>

lemma str_split_no_sep: "sep \<notin> set s \<Longrightarrow> str_split sep s = [s]"
  by (induction s) auto

lemma str_split_two: "sep \<in> set s \<Longrightarrow> \<exists>w x ws. str_split sep s = w # x # ws"
proof (induction s)
  case Nil
  then show ?case by simp
next
  case (Cons c cs)
  show ?case
  proof (cases "c = sep")
    case True
    then show ?thesis
      by (cases "sep \<in> set cs") (use Cons.IH in \<open>auto simp: str_split_no_sep\<close>)
  next
    case False
    with Cons.prems have "sep \<in> set cs" by simp
    from Cons.IH [OF this] False show ?thesis by auto
  qed
qed

lemma last_str_split: "sep \<notin> set d \<Longrightarrow> last (str_split sep (l @ sep # d)) = d"
proof (induction l)
  case Nil
  then show ?case by (simp add: str_split_no_sep)
next
  case (Cons c l)
  have "sep \<in> set (l @ sep # d)" by simp
  from str_split_two [OF this]
  obtain w x ws where "str_split sep (l @ sep # d) = w # x # ws"
    by blast
  with Cons show ?case by auto
qed

lemma bad_email_iff:
  "\<not> bad_email v \<longleftrightarrow>
     (\<exists>l d. v = PStr (l @ CHR ''@'' # d) \<and> CHR ''@'' \<notin> set d \<and> CHR ''.'' \<in> set d)"
proof (cases v)
  case (PStr s)
  show ?thesis
  proof
    assume a: "\<not> bad_email v"
    with PStr have "CHR ''@'' \<in> set s" by auto
    then obtain l d where s: "s = l @ CHR ''@'' # d" "CHR ''@'' \<notin> set d"
      by (meson split_list_last)
    with a PStr have "CHR ''.'' \<in> set d" by (simp add: last_str_split)
    with s PStr
    show "\<exists>l d. v = PStr (l @ CHR ''@'' # d) \<and> CHR ''@'' \<notin> set d \<and> CHR ''.'' \<in> set d"
      by blast
  next
    assume "\<exists>l d. v = PStr (l @ CHR ''@'' # d) \<and> CHR ''@'' \<notin> set d \<and> CHR ''.'' \<in> set d"
    then show "\<not> bad_email v" by (auto simp: last_str_split)
  qed
qed auto

text \<open>
  C7, as the code has it. For a customer whose name is accepted, \<open>validate\<close> accepts the
  e-mail exactly when it is a string with an \<open>@\<close> in which the text \<open>d\<close> after the last
  \<open>@\<close> contains a dot. The text \<open>l\<close> before the last \<open>@\<close> is not looked at: it may be
  empty and may contain further \<open>@\<close>.
\<close>

theorem email_accepted_iff:
  "\<not> not_str_or_blank (customer_name c) \<Longrightarrow>
   (Customer_validate c = Inr ()) =
   (\<exists>l d. email c = PStr (l @ CHR ''@'' # d) \<and> CHR ''@'' \<notin> set d \<and> CHR ''.'' \<in> set d)"
  using bad_email_iff [of "email c"] by (auto simp add: Customer_validate_def)

theorem email_accepted_iff_witness:
  "\<not> not_str_or_blank (PStr ''Ann'') \<and>
   Customer_validate \<lparr>customer_name = PStr ''Ann'', email = PStr ''ann@x.org'',
                      customer_id = PStr ''c1''\<rparr> = Inr ()"
proof -
  let ?c = "\<lparr>customer_name = PStr ''Ann'', email = PStr ''ann@x.org'', customer_id = PStr ''c1''\<rparr>"
  have n: "\<not> not_str_or_blank (customer_name ?c)"
    by (simp add: strip_def isspace_def)
  have "email ?c = PStr (''ann'' @ CHR ''@'' # ''x.org'') \<and> CHR ''@'' \<notin> set ''x.org''
        \<and> CHR ''.'' \<in> set ''x.org''"
    by simp
  then have "Customer_validate ?c = Inr ()"
    using email_accepted_iff [OF n] by blast
  with n show ?thesis by simp
qed

text \<open>
  C7, as the claim states it, fails: an e-mail with two \<open>@\<close> is accepted.
\<close>

theorem email_two_at_accepted:
  "Customer_validate \<lparr>customer_name = PStr ''A'', email = PStr ''a@b@c.com'',
                      customer_id = PStr ''c1''\<rparr> = Inr ()"
  by (simp add: Customer_validate_def strip_def isspace_def)

section \<open>The unset value of rooms_available\<close>

text \<open>
  C10. For a record whose name, address and \<open>total_rooms\<close> are acceptable: with
  \<open>rooms_available\<close> equal to \<open>-1\<close> the constructor does not raise and the hotel
  has \<open>rooms_available = total_rooms\<close>, \<open>from_dict\<close> returns that hotel and loading a
  file with this record yields it; with any other negative \<open>rooms_available\<close> the
  constructor and \<open>from_dict\<close> raise \<open>ValueError\<close> and loading skips the record.
\<close>

theorem minus_one_loads_fully_available:
  assumes "\<not> not_str_or_blank name" "\<not> not_str_or_blank address"
    and "py_int tot = Inr t" "0 < t"
    and "map_of d ''name'' = Some name" "map_of d ''address'' = Some address"
    and "map_of d ''total_rooms'' = Some tot" "map_of d ''hotel_id'' = Some hid"
    and "map_of d ''rooms_available'' = Some (PInt a)"
  shows "(a = - 1 \<longrightarrow>
            Hotel_init name address (PInt t) (PInt a) hid
              = Inr \<lparr>hotel_name = name, hotel_address = address, total_rooms = PInt t,
                     rooms_available = PInt t, hotel_id = hid\<rparr> \<and>
            Hotel_from_dict (JObject d)
              = Inr \<lparr>hotel_name = name, hotel_address = address, total_rooms = PInt t,
                     rooms_available = PInt t, hotel_id = hid\<rparr> \<and>
            HotelManager_init (JsonList [JObject d])
              = Inr \<lparr>hotels = [(hid, \<lparr>hotel_name = name, hotel_address = address,
                                        total_rooms = PInt t, rooms_available = PInt t,
                                        hotel_id = hid\<rparr>)],
                     hotels_file = JsonList [JObject d]\<rparr>) \<and>
         (a < 0 \<and> a \<noteq> - 1 \<longrightarrow>
            Hotel_init name address (PInt t) (PInt a) hid = Inl ValueError \<and>
            Hotel_from_dict (JObject d) = Inl ValueError \<and>
            HotelManager_init (JsonList [JObject d])
              = Inr \<lparr>hotels = [], hotels_file = JsonList [JObject d]\<rparr>)"
proof -
  let ?full = "\<lparr>hotel_name = name, hotel_address = address, total_rooms = PInt t,
                 rooms_available = PInt t, hotel_id = hid\<rparr>"
  have fd: "Hotel_from_dict (JObject d) = Hotel_init name address (PInt t) (PInt a) hid"
    using assms by (simp add: Hotel_from_dict_def)
  have ok: "a = - 1 \<Longrightarrow> Hotel_init name address (PInt t) (PInt a) hid = Inr ?full"
    using assms(1,2,4) by (simp add: Hotel_init_def Hotel_validate_def)
  have bad: "a < 0 \<Longrightarrow> a \<noteq> - 1
               \<Longrightarrow> Hotel_init name address (PInt t) (PInt a) hid = Inl ValueError"
    using assms(1,2,4) by (simp add: Hotel_init_def Hotel_validate_def)
  show ?thesis
    using fd ok bad
    by (simp add: HotelManager_init_def HotelManager_load_def load_json_def)
qed

theorem minus_one_loads_fully_available_witness:
  "HotelManager_init (JsonList [JObject (ex_record (- 1))])
     = Inr \<lparr>hotels = [(PStr ''h1'', \<lparr>hotel_name = PStr ''H'', hotel_address = PStr ''A'',
                                       total_rooms = PInt 5, rooms_available = PInt 5,
                                       hotel_id = PStr ''h1''\<rparr>)],
            hotels_file = JsonList [JObject (ex_record (- 1))]\<rparr> \<and>
   HotelManager_init (JsonList [JObject (ex_record (- 2))])
     = Inr \<lparr>hotels = [], hotels_file = JsonList [JObject (ex_record (- 2))]\<rparr>"
proof -
  have n: "\<not> not_str_or_blank (PStr ''H'')" "\<not> not_str_or_blank (PStr ''A'')"
    by (simp_all add: strip_def isspace_def)
  have t: "py_int (PInt 5) = Inr 5" "(0::int) < 5" by simp_all
  have d: "map_of (ex_record a) ''name'' = Some (PStr ''H'')"
    "map_of (ex_record a) ''address'' = Some (PStr ''A'')"
    "map_of (ex_record a) ''total_rooms'' = Some (PInt 5)"
    "map_of (ex_record a) ''hotel_id'' = Some (PStr ''h1'')"
    "map_of (ex_record a) ''rooms_available'' = Some (PInt a)" for a
    by (simp_all add: ex_record_def)
  from minus_one_loads_fully_available [OF n t d, of "- 1"]
       minus_one_loads_fully_available [OF n t d, of "- 2"]
  show ?thesis by simp
qed

section \<open>Bulk load\<close>

lemma int_of_str_error: "int_of_str s = Inl e \<Longrightarrow> e = ValueError"
  by (auto simp: int_of_str_def split: list.splits if_splits)

lemma py_int_error: "py_int v = Inl e \<Longrightarrow> e = ValueError \<or> e = TypeError"
  by (cases v) (auto dest: int_of_str_error)

lemma Hotel_init_error: "Hotel_init n a t r i = Inl e \<Longrightarrow> e = ValueError"
  by (auto simp: Hotel_init_def Let_def split: sum.splits dest: Hotel_validate_ValueError)

lemma Hotel_from_dict_object_error:
  "Hotel_from_dict (JObject d) = Inl e \<Longrightarrow> e = ValueError \<or> e = TypeError"
  by (auto simp: Hotel_from_dict_def split: option.splits sum.splits
           dest: py_int_error Hotel_init_error)

text \<open>
  A record that is a JSON object and does not parse into a hotel is skipped, and the
  loop goes on with the records after it.
\<close>

lemma load_records_object_skipped:
  "Hotel_from_dict (JObject d) = Inl e \<Longrightarrow>
   load_records Hotel_from_dict hotel_id (JObject d # rs) acc
     = load_records Hotel_from_dict hotel_id rs acc"
  by (auto dest: Hotel_from_dict_object_error)

text \<open>
  C9 fails for a record that is not a JSON object. \<open>Hotel.from_dict\<close> evaluates
  \<open>data.keys()\<close>, which raises \<open>AttributeError\<close> on a number, a string or \<open>null\<close>;
  \<open>_load\<close> catches \<open>ValueError\<close>, \<open>KeyError\<close> and \<open>TypeError\<close> only. Loading the file
  \<open>[{"hotel_id": "h1", "name": "H", "address": "A", "total_rooms": 5}, 42]\<close>, one
  well-formed and one malformed record, does not yield one hotel: the exception leaves
  \<open>_load\<close> and the constructor of the manager.
\<close>

theorem load_non_object_record_raises:
  "HotelManager_init
     (JsonList [JObject [(''hotel_id'', PStr ''h1''), (''name'', PStr ''H''),
                         (''address'', PStr ''A''), (''total_rooms'', PInt 5)],
                JValue (PInt 42)])
     = Inl AttributeError"
  by (simp add: HotelManager_init_def HotelManager_load_def load_json_def Hotel_from_dict_def
        Hotel_init_def Hotel_validate_def strip_def isspace_def)

section \<open>Reservations and the room count\<close>

lemma get_hotel_save: "get_hotel (HotelManager_save hm) k = get_hotel hm k"
  by (simp add: get_hotel_def HotelManager_save_def)

lemma hotels_save: "hotels (HotelManager_save hm) = hotels hm"
  by (simp add: HotelManager_save_def)

lemma get_hotel_update:
  "get_hotel (hm\<lparr>hotels := AList.update k v (hotels hm)\<rparr>) k'
     = (if k' = k then Some v else get_hotel hm k')"
  by (simp add: get_hotel_def update_conv')

lemma reserve_room_success:
  assumes "get_hotel hm hid = Some h" "rooms_available h = PInt a" "0 < a"
  shows "reserve_room hm hid =
    (Inr True, HotelManager_save
       (hm\<lparr>hotels := AList.update hid (h\<lparr>rooms_available := PInt (a - 1)\<rparr>) (hotels hm)\<rparr>))"
  using assms by (simp add: reserve_room_def)

lemma reserve_room_TrueD:
  assumes "reserve_room hm hid = (Inr True, hm')"
  shows "\<exists>h a. get_hotel hm hid = Some h \<and> rooms_available h = PInt a \<and> 0 < a \<and>
     hm' = HotelManager_save
       (hm\<lparr>hotels := AList.update hid (h\<lparr>rooms_available := PInt (a - 1)\<rparr>) (hotels hm)\<rparr>)"
  using assms by (auto simp: reserve_room_def split: option.splits pyval.splits if_splits)

lemma cancel_room_success:
  assumes "get_hotel hm hid = Some h" "rooms_available h = PInt a" "total_rooms h = PInt t"
    and "a < t"
  shows "cancel_room hm hid =
    (Inr True, HotelManager_save
       (hm\<lparr>hotels := AList.update hid (h\<lparr>rooms_available := PInt (a + 1)\<rparr>) (hotels hm)\<rparr>))"
  using assms by (simp add: cancel_room_def)

lemma cancel_room_full:
  assumes "get_hotel hm hid = Some h" "rooms_available h = PInt a" "total_rooms h = PInt t"
    and "t \<le> a"
  shows "cancel_room hm hid = (Inr False, hm)"
  using assms by (simp add: cancel_room_def)

lemma date_fromisoformat_error:
  "date_fromisoformat v = Inl e \<Longrightarrow> e = ValueError \<or> e = TypeError"
  by (cases v) (auto split: option.splits)

lemma Reservation_validate_ValueError: "Reservation_validate r = Inl e \<Longrightarrow> e = ValueError"
  by (auto simp: Reservation_validate_def split: if_splits sum.splits
           dest: date_fromisoformat_error)

lemma Reservation_validate_cases:
  "Reservation_validate r = Inr () \<or> Reservation_validate r = Inl ValueError"
  by (cases "Reservation_validate r") (auto dest: Reservation_validate_ValueError)

lemma Reservation_init_cases:
  "Reservation_init cid hid ci co rid = Inl ValueError \<or>
   Reservation_init cid hid ci co rid =
     Inr \<lparr>res_customer_id = cid, res_hotel_id = hid, check_in = ci, check_out = co,
          reservation_id = rid\<rparr>"
  using Reservation_validate_cases
    [of "\<lparr>res_customer_id = cid, res_hotel_id = hid, check_in = ci, check_out = co,
          reservation_id = rid\<rparr>"]
  by (auto simp: Reservation_init_def)

lemma Reservation_init_bad_dates:
  assumes "\<forall>d1 d2. date_fromisoformat ci = Inr d1 \<and> date_fromisoformat co = Inr d2
             \<longrightarrow> date_le d2 d1"
  shows "Reservation_init cid hid ci co rid = Inl ValueError"
proof -
  let ?r = "\<lparr>res_customer_id = cid, res_hotel_id = hid, check_in = ci, check_out = co,
          reservation_id = rid\<rparr>"
  from assms have "Reservation_validate ?r \<noteq> Inr ()"
    by (auto simp: Reservation_validate_def split: sum.splits)
  with Reservation_validate_cases [of ?r] show ?thesis
    by (auto simp: Reservation_init_def)
qed

text \<open>
  C2. The hotel manager is attached, the hotel exists with at least one room available
  and within its capacity (the invariant of every hotel a manager holds), and the dates
  are not a check-out after a check-in: one of them does not parse, or
  \<open>check_out <= check_in\<close>. Then \<open>create_reservation\<close> returns \<open>None\<close>, the
  reservations and their file are as before, and the hotels, so \<open>rooms_available\<close>, are
  as before. When the customer check passes, this is a decrement by \<open>reserve_room\<close>
  followed by the release by \<open>cancel_room\<close>; when it does not, no room is touched.
\<close>

theorem invalid_dates_release_room:
  assumes hm: "hotel_manager rm = Some hm"
    and h: "get_hotel hm hid = Some h"
    and a: "rooms_available h = PInt a" "total_rooms h = PInt t" "0 < a" "a \<le> t"
    and bad: "\<forall>d1 d2. date_fromisoformat ci = Inr d1 \<and> date_fromisoformat co = Inr d2
                \<longrightarrow> date_le d2 d1"
  shows "fst (create_reservation rm new_id cid hid ci co) = Inr None \<and>
         reservations (snd (create_reservation rm new_id cid hid ci co)) = reservations rm \<and>
         reservations_file (snd (create_reservation rm new_id cid hid ci co))
            = reservations_file rm \<and>
         map_option hotels (hotel_manager (snd (create_reservation rm new_id cid hid ci co)))
            = Some (hotels hm) \<and>
         hotel_rooms (snd (create_reservation rm new_id cid hid ci co)) hid = Some (PInt a) \<and>
         ((case customer_manager rm of
             None \<Rightarrow> True
           | Some cm \<Rightarrow> get_customer cm cid \<noteq> None) \<longrightarrow>
            fst (reserve_room hm hid) = Inr True \<and>
            map_option rooms_available (get_hotel (snd (reserve_room hm hid)) hid)
              = Some (PInt (a - 1)) \<and>
            fst (cancel_room (snd (reserve_room hm hid)) hid) = Inr True \<and>
            snd (create_reservation rm new_id cid hid ci co)
              = rm\<lparr>hotel_manager := Some (snd (cancel_room (snd (reserve_room hm hid)) hid))\<rparr>)"
proof -
  let ?h1 = "h\<lparr>rooms_available := PInt (a - 1)\<rparr>"
  let ?hm1 = "HotelManager_save (hm\<lparr>hotels := AList.update hid ?h1 (hotels hm)\<rparr>)"
  have res: "reserve_room hm hid = (Inr True, ?hm1)"
    using h a by (simp add: reserve_room_success)
  have g1: "get_hotel ?hm1 hid = Some ?h1"
    by (simp add: get_hotel_save get_hotel_update)
  have restored: "?h1\<lparr>rooms_available := PInt (a - 1 + 1)\<rparr> = h" using a(1) by simp
  have same: "AList.update hid h (hotels hm) = hotels hm"
    using h by (simp add: get_hotel_def update_triv)
  have "cancel_room ?hm1 hid =
     (Inr True, HotelManager_save
        (?hm1\<lparr>hotels := AList.update hid (?h1\<lparr>rooms_available := PInt (a - 1 + 1)\<rparr>)
                           (hotels ?hm1)\<rparr>))"
    using a by (intro cancel_room_success [OF g1, of "a - 1" t]) simp_all
  then have can: "cancel_room ?hm1 hid = (Inr True, HotelManager_save hm)"
    unfolding restored by (simp add: same HotelManager_save_def)
  have init: "Reservation_init cid hid ci co (PStr new_id) = Inl ValueError"
    using bad by (rule Reservation_init_bad_dates)
  show ?thesis
  proof (cases "case customer_manager rm of
                  None \<Rightarrow> False | Some cm \<Rightarrow> get_customer cm cid = None")
    case True
    then have "create_reservation rm new_id cid hid ci co = (Inr None, rm)"
      by (simp add: create_reservation_def)
    moreover from True
    have "\<not> (case customer_manager rm of
               None \<Rightarrow> True | Some cm \<Rightarrow> get_customer cm cid \<noteq> None)"
      by (simp split: option.splits)
    ultimately show ?thesis using hm h a by (simp add: hotel_rooms_def)
  next
    case False
    then have "create_reservation rm new_id cid hid ci co
                 = (Inr None, rm\<lparr>hotel_manager := Some (HotelManager_save hm)\<rparr>)"
      using hm h res can init by (simp add: create_reservation_def)
    then show ?thesis using res can h a g1
      by (simp add: hotel_rooms_def get_hotel_save hotels_save)
  qed
qed

theorem invalid_dates_release_room_witness:
  "fst (create_reservation ex_rm ''r1'' (PStr ''c1'') (PStr ''h1'')
          (PStr ''2026-07-05'') (PStr ''2026-07-01'')) = Inr None \<and>
   hotel_rooms ex_rm (PStr ''h1'') = Some (PInt 1) \<and>
   hotel_rooms (snd (create_reservation ex_rm ''r1'' (PStr ''c1'') (PStr ''h1'')
                       (PStr ''2026-07-05'') (PStr ''2026-07-01''))) (PStr ''h1'')
     = Some (PInt 1) \<and>
   fst (create_reservation ex_rm ''r1'' (PStr ''c1'') (PStr ''h1'')
          (PStr ''bad'') (PStr ''data'')) = Inr None \<and>
   hotel_rooms (snd (create_reservation ex_rm ''r1'' (PStr ''c1'') (PStr ''h1'')
                       (PStr ''bad'') (PStr ''data''))) (PStr ''h1'')
     = Some (PInt 1)"
proof -
  have hm: "hotel_manager ex_rm = Some ex_hm" by (simp add: ex_rm_def)
  have h: "get_hotel ex_hm (PStr ''h1'') = Some ex_hotel"
    by (simp add: ex_hm_def get_hotel_def)
  have a: "rooms_available ex_hotel = PInt 1" "total_rooms ex_hotel = PInt 2"
    "(0::int) < 1" "(1::int) \<le> 2"
    by (simp_all add: ex_hotel_def)
  have p1: "date_fromisoformat (PStr ''2026-07-05'') = Inr (2026, 7, 5)" by code_simp
  have p2: "date_fromisoformat (PStr ''2026-07-01'') = Inr (2026, 7, 1)" by code_simp
  have p3: "date_fromisoformat (PStr ''bad'') = Inl ValueError" by code_simp
  have d1: "\<forall>d1 d2. date_fromisoformat (PStr ''2026-07-05'') = Inr d1 \<and>
                   date_fromisoformat (PStr ''2026-07-01'') = Inr d2 \<longrightarrow> date_le d2 d1"
    unfolding p1 p2 by simp
  have d2: "\<forall>d1 d2. date_fromisoformat (PStr ''bad'') = Inr d1 \<and>
                   date_fromisoformat (PStr ''data'') = Inr d2 \<longrightarrow> date_le d2 d1"
    unfolding p3 by simp
  from invalid_dates_release_room [OF hm h a d1, of "''r1''" "PStr ''c1''"]
       invalid_dates_release_room [OF hm h a d2, of "''r1''" "PStr ''c1''"]
  show ?thesis by (simp add: hotel_rooms_def hm h a)
qed

lemma create_reservation_SomeD:
  assumes c: "create_reservation rm new_id cid hid ci co = (Inr (Some r), rm')"
    and hm: "hotel_manager rm = Some hm"
  shows "\<exists>h a. get_hotel hm hid = Some h \<and> rooms_available h = PInt a \<and> 0 < a \<and>
           r = \<lparr>res_customer_id = cid, res_hotel_id = hid, check_in = ci, check_out = co,
                reservation_id = PStr new_id\<rparr> \<and>
           rm' = ReservationManager_save
                   (rm\<lparr>hotel_manager := Some (HotelManager_save
                          (hm\<lparr>hotels := AList.update hid (h\<lparr>rooms_available := PInt (a - 1)\<rparr>)
                                           (hotels hm)\<rparr>)),
                       reservations := AList.update (PStr new_id) r (reservations rm)\<rparr>)"
proof -
  from c have cust: "\<not> (case customer_manager rm of None \<Rightarrow> False | Some cm \<Rightarrow> get_customer cm cid = None)"
    by (auto simp: create_reservation_def split: if_splits)
  from c cust hm obtain h where h: "get_hotel hm hid = Some h"
    by (cases "get_hotel hm hid") (auto simp: create_reservation_def)
  obtain res hm1 where rr: "reserve_room hm hid = (res, hm1)" by (cases "reserve_room hm hid")
  from c cust hm h rr have "res = Inr True"
    by (auto simp: create_reservation_def split: sum.splits bool.splits if_splits option.splits prod.splits)
  with rr reserve_room_TrueD [of hm hid hm1] h obtain a where
    a: "rooms_available h = PInt a" "0 < a"
    and hm1: "hm1 = HotelManager_save
       (hm\<lparr>hotels := AList.update hid (h\<lparr>rooms_available := PInt (a - 1)\<rparr>) (hotels hm)\<rparr>)"
    by auto
  from Reservation_init_cases [of cid hid ci co "PStr new_id"] c cust hm h rr \<open>res = Inr True\<close> hm1
  show ?thesis
    using a by (auto simp: create_reservation_def split: option.splits prod.splits sum.splits)
qed


lemma hotel_manager_res_save:
  "hotel_manager (ReservationManager_save rm) = hotel_manager rm"
  by (simp add: ReservationManager_save_def)

lemma reservations_res_save:
  "reservations (ReservationManager_save rm) = reservations rm"
  by (simp add: ReservationManager_save_def)

lemma hotel_rooms_res_save:
  "hotel_rooms (ReservationManager_save rm) hid = hotel_rooms rm hid"
  by (simp add: hotel_rooms_def hotel_manager_res_save)

lemma cancel_reservation_found:
  assumes r: "map_of (reservations rm) rid = Some r"
    and hm: "hotel_manager rm = Some hm"
    and c: "cancel_room hm (res_hotel_id r) = (Inr b, hm')"
  shows "cancel_reservation rm rid =
           (Inr True, ReservationManager_save
              (rm\<lparr>hotel_manager := Some hm', reservations := AList.delete rid (reservations rm)\<rparr>))"
  using assms by (simp add: cancel_reservation_def)

text \<open>
  The cancellation of a stored reservation, for a hotel manager within the invariant of
  the room count: whether the hotel is missing, below capacity or at capacity.
\<close>

lemma cancel_reservation_stored:
  assumes hm: "hotel_manager rm = Some hm"
    and r0: "get_reservation rm rid = Some r0" and inv: "hotels_inv hm"
  shows "\<exists>hm'. cancel_reservation rm rid =
            (Inr True, ReservationManager_save
               (rm\<lparr>hotel_manager := Some hm',
                   reservations := AList.delete rid (reservations rm)\<rparr>)) \<and>
          (case get_hotel hm (res_hotel_id r0) of
             None \<Rightarrow> hm' = hm
           | Some h \<Rightarrow>
               \<exists>a t. rooms_available h = PInt a \<and> total_rooms h = PInt t \<and>
                 hm' = (if a < t
                        then HotelManager_save
                               (hm\<lparr>hotels := AList.update (res_hotel_id r0)
                                                (h\<lparr>rooms_available := PInt (a + 1)\<rparr>)
                                                (hotels hm)\<rparr>)
                        else hm))"
proof -
  from r0 have m: "map_of (reservations rm) rid = Some r0"
    by (simp add: get_reservation_def)
  show ?thesis
  proof (cases "get_hotel hm (res_hotel_id r0)")
    case None
    then have "cancel_room hm (res_hotel_id r0) = (Inr False, hm)"
      by (simp add: cancel_room_def)
    from cancel_reservation_found [OF m hm this] None show ?thesis by simp
  next
    case (Some h)
    with inv have "hotel_inv h"
      by (auto simp: hotels_inv_def list_all_iff get_hotel_def dest: map_of_SomeD)
    then obtain a t where at: "rooms_available h = PInt a" "total_rooms h = PInt t"
      by (auto simp: hotel_inv_def split: pyval.splits)
    show ?thesis
    proof (cases "a < t")
      case True
      from cancel_reservation_found [OF m hm cancel_room_success [OF Some at True]] Some at True
      show ?thesis by simp
    next
      case False
      then have "t \<le> a" by simp
      from cancel_reservation_found [OF m hm cancel_room_full [OF Some at this]] Some at False
      show ?thesis by simp
    qed
  qed
qed

text \<open>
  C1, as the code has it, with a hotel manager attached. A successful
  \<open>create_reservation\<close> lowers \<open>rooms_available\<close> of the hotel by exactly one. A
  \<open>cancel_reservation\<close> of a stored reservation returns \<open>True\<close> and removes the
  reservation, whatever \<open>cancel_room\<close> returns: it raises \<open>rooms_available\<close> of the
  reservation's hotel by exactly one when the hotel is below its capacity, and leaves
  the hotel manager as it is when the hotel is at capacity or is no longer in the
  collection. A successful create followed by the cancellation of that reservation
  restores the count the hotel had, for a hotel within its invariant.
\<close>

theorem create_cancel_room_count:
  assumes hm: "hotel_manager rm = Some hm"
  shows
    "(create_reservation rm new_id cid hid ci co = (Inr (Some r), rm') \<longrightarrow>
        (\<exists>n. hotel_rooms rm hid = Some (PInt n) \<and> hotel_rooms rm' hid = Some (PInt (n - 1)))) \<and>
     (get_reservation rm rid = Some r0 \<and> get_hotel hm (res_hotel_id r0) = Some h \<and>
      rooms_available h = PInt a \<and> total_rooms h = PInt t \<longrightarrow>
        fst (cancel_reservation rm rid) = Inr True \<and>
        hotel_rooms (snd (cancel_reservation rm rid)) (res_hotel_id r0)
          = Some (PInt (if a < t then a + 1 else a))) \<and>
     (create_reservation rm new_id cid hid ci co = (Inr (Some r), rm') \<and>
      get_hotel hm hid = Some h' \<and> hotel_inv h' \<longrightarrow>
        fst (cancel_reservation rm' (reservation_id r)) = Inr True \<and>
        hotel_rooms (snd (cancel_reservation rm' (reservation_id r))) hid = hotel_rooms rm hid) \<and>
     (get_reservation rm rid = Some r0 \<and> hotels_inv hm \<longrightarrow>
        (\<exists>hm'. cancel_reservation rm rid =
            (Inr True, ReservationManager_save
               (rm\<lparr>hotel_manager := Some hm',
                   reservations := AList.delete rid (reservations rm)\<rparr>)) \<and>
          (case get_hotel hm (res_hotel_id r0) of
             None \<Rightarrow> hm' = hm
           | Some h0 \<Rightarrow>
               \<exists>a0 t0. rooms_available h0 = PInt a0 \<and> total_rooms h0 = PInt t0 \<and>
                 hm' = (if a0 < t0
                        then HotelManager_save
                               (hm\<lparr>hotels := AList.update (res_hotel_id r0)
                                                (h0\<lparr>rooms_available := PInt (a0 + 1)\<rparr>)
                                                (hotels hm)\<rparr>)
                        else hm))))"
proof (intro conjI impI)
  assume c: "create_reservation rm new_id cid hid ci co = (Inr (Some r), rm')"
  from create_reservation_SomeD [OF c hm] hm
  show "\<exists>n. hotel_rooms rm hid = Some (PInt n) \<and> hotel_rooms rm' hid = Some (PInt (n - 1))"
    by (auto simp: hotel_rooms_def hotel_manager_res_save get_hotel_save get_hotel_update)
next
  assume "get_reservation rm rid = Some r0 \<and> get_hotel hm (res_hotel_id r0) = Some h \<and>
      rooms_available h = PInt a \<and> total_rooms h = PInt t"
  then have r0: "map_of (reservations rm) rid = Some r0"
    and h: "get_hotel hm (res_hotel_id r0) = Some h"
    and a: "rooms_available h = PInt a" "total_rooms h = PInt t"
    by (simp_all add: get_reservation_def)
  have "fst (cancel_reservation rm rid) = Inr True \<and>
        hotel_rooms (snd (cancel_reservation rm rid)) (res_hotel_id r0)
          = Some (PInt (if a < t then a + 1 else a))"
  proof (cases "a < t")
    case True
    from cancel_reservation_found [OF r0 hm cancel_room_success [OF h a True]] True
    show ?thesis
      by (simp add: hotel_rooms_def hotel_manager_res_save get_hotel_save get_hotel_update)
  next
    case False
    then have "t \<le> a" by simp
    from cancel_reservation_found [OF r0 hm cancel_room_full [OF h a this]] False h a
    show ?thesis by (simp add: hotel_rooms_def hotel_manager_res_save)
  qed
  then show "fst (cancel_reservation rm rid) = Inr True"
    and "hotel_rooms (snd (cancel_reservation rm rid)) (res_hotel_id r0)
          = Some (PInt (if a < t then a + 1 else a))"
    by simp_all
next
  assume "create_reservation rm new_id cid hid ci co = (Inr (Some r), rm') \<and>
      get_hotel hm hid = Some h' \<and> hotel_inv h'"
  then have c: "create_reservation rm new_id cid hid ci co = (Inr (Some r), rm')"
    and h': "get_hotel hm hid = Some h'" and inv: "hotel_inv h'"
    by simp_all
  from create_reservation_SomeD [OF c hm] h' obtain n where
    n: "rooms_available h' = PInt n" "0 < n"
    and r: "r = \<lparr>res_customer_id = cid, res_hotel_id = hid, check_in = ci, check_out = co,
                reservation_id = PStr new_id\<rparr>"
    and rm': "rm' = ReservationManager_save
                   (rm\<lparr>hotel_manager := Some (HotelManager_save
                          (hm\<lparr>hotels := AList.update hid (h'\<lparr>rooms_available := PInt (n - 1)\<rparr>)
                                           (hotels hm)\<rparr>)),
                       reservations := AList.update (PStr new_id) r (reservations rm)\<rparr>)"
    by auto
  from inv n obtain t where t: "total_rooms h' = PInt t" "n \<le> t"
    by (auto simp: hotel_inv_def split: pyval.splits)
  let ?h1 = "h'\<lparr>rooms_available := PInt (n - 1)\<rparr>"
  let ?hm1 = "HotelManager_save (hm\<lparr>hotels := AList.update hid ?h1 (hotels hm)\<rparr>)"
  have g1: "get_hotel ?hm1 (res_hotel_id r) = Some ?h1"
    by (simp add: r get_hotel_save get_hotel_update)
  have found: "map_of (reservations rm') (reservation_id r) = Some r"
    by (simp add: rm' r update_conv' reservations_res_save)
  have hm1: "hotel_manager rm' = Some ?hm1" by (simp add: rm' hotel_manager_res_save)
  have can: "cancel_room ?hm1 (res_hotel_id r) =
     (Inr True, HotelManager_save
        (?hm1\<lparr>hotels := AList.update (res_hotel_id r) (?h1\<lparr>rooms_available := PInt (n - 1 + 1)\<rparr>)
                           (hotels ?hm1)\<rparr>))"
    using t by (intro cancel_room_success [OF g1, of "n - 1" t]) simp_all
  from cancel_reservation_found [OF found hm1 can]
  have "fst (cancel_reservation rm' (reservation_id r)) = Inr True \<and>
        hotel_rooms (snd (cancel_reservation rm' (reservation_id r))) hid = hotel_rooms rm hid"
    using hm h' n
    by (simp add: hotel_rooms_def r get_hotel_def update_conv' hotel_manager_res_save
          hotels_save)
  then show "fst (cancel_reservation rm' (reservation_id r)) = Inr True"
    and "hotel_rooms (snd (cancel_reservation rm' (reservation_id r))) hid = hotel_rooms rm hid"
    by simp_all
next
  assume "get_reservation rm rid = Some r0 \<and> hotels_inv hm"
  then have "get_reservation rm rid = Some r0" and "hotels_inv hm" by simp_all
  then show "\<exists>hm'. cancel_reservation rm rid =
            (Inr True, ReservationManager_save
               (rm\<lparr>hotel_manager := Some hm',
                   reservations := AList.delete rid (reservations rm)\<rparr>)) \<and>
          (case get_hotel hm (res_hotel_id r0) of
             None \<Rightarrow> hm' = hm
           | Some h0 \<Rightarrow>
               \<exists>a0 t0. rooms_available h0 = PInt a0 \<and> total_rooms h0 = PInt t0 \<and>
                 hm' = (if a0 < t0
                        then HotelManager_save
                               (hm\<lparr>hotels := AList.update (res_hotel_id r0)
                                                (h0\<lparr>rooms_available := PInt (a0 + 1)\<rparr>)
                                                (hotels hm)\<rparr>)
                        else hm))"
    by (rule cancel_reservation_stored [OF hm])
qed

theorem create_cancel_room_count_witness:
  "hotel_rooms ex_rm (PStr ''h1'') = Some (PInt 1) \<and>
   hotel_rooms (snd (create_reservation ex_rm ''r1'' (PStr ''c1'') (PStr ''h1'')
                       (PStr ''2026-07-01'') (PStr ''2026-07-05''))) (PStr ''h1'') = Some (PInt 0) \<and>
   fst (cancel_reservation
          (snd (create_reservation ex_rm ''r1'' (PStr ''c1'') (PStr ''h1'')
                  (PStr ''2026-07-01'') (PStr ''2026-07-05''))) (PStr ''r1'')) = Inr True \<and>
   hotel_rooms
     (snd (cancel_reservation
             (snd (create_reservation ex_rm ''r1'' (PStr ''c1'') (PStr ''h1'')
                     (PStr ''2026-07-01'') (PStr ''2026-07-05''))) (PStr ''r1'')))
     (PStr ''h1'') = Some (PInt 1) \<and>
   get_reservation ex_orphan (PStr ''r1'') = Some ex_reservation \<and>
   get_hotel \<lparr>hotels = [], hotels_file = JsonList []\<rparr> (res_hotel_id ex_reservation) = None \<and>
   cancel_reservation ex_orphan (PStr ''r1'')
     = (Inr True, ReservationManager_save
          (ex_orphan\<lparr>hotel_manager := Some \<lparr>hotels = [], hotels_file = JsonList []\<rparr>,
                      reservations := AList.delete (PStr ''r1'') (reservations ex_orphan)\<rparr>))"
proof -
  let ?r = "\<lparr>res_customer_id = PStr ''c1'', res_hotel_id = PStr ''h1'',
             check_in = PStr ''2026-07-01'', check_out = PStr ''2026-07-05'',
             reservation_id = PStr ''r1''\<rparr>"
  let ?c = "create_reservation ex_rm ''r1'' (PStr ''c1'') (PStr ''h1'')
              (PStr ''2026-07-01'') (PStr ''2026-07-05'')"
  have hm: "hotel_manager ex_rm = Some ex_hm" by (simp add: ex_rm_def)
  have fstc: "fst ?c = Inr (Some ?r)" by code_simp
  then have c: "?c = (Inr (Some ?r), snd ?c)" by (metis prod.collapse)
  have h: "get_hotel ex_hm (PStr ''h1'') = Some ex_hotel \<and> hotel_inv ex_hotel"
    by (simp add: ex_hm_def get_hotel_def hotel_inv_def ex_hotel_def)
  have g: "get_reservation (snd ?c) (PStr ''r1'') = Some ?r" by code_simp
  have r1: "hotel_rooms ex_rm (PStr ''h1'') = Some (PInt 1)"
    by (simp add: hotel_rooms_def ex_rm_def ex_hm_def get_hotel_def ex_hotel_def)
  have hm1: "hotel_manager (snd ?c) = Some (HotelManager_save
      (ex_hm\<lparr>hotels := [(PStr ''h1'', ex_hotel\<lparr>rooms_available := PInt 0\<rparr>)]\<rparr>))"
    by code_simp
  have h1: "get_hotel (HotelManager_save
      (ex_hm\<lparr>hotels := [(PStr ''h1'', ex_hotel\<lparr>rooms_available := PInt 0\<rparr>)]\<rparr>))
        (res_hotel_id ?r) = Some (ex_hotel\<lparr>rooms_available := PInt 0\<rparr>) \<and>
      rooms_available (ex_hotel\<lparr>rooms_available := PInt 0\<rparr>) = PInt 0 \<and>
      total_rooms (ex_hotel\<lparr>rooms_available := PInt 0\<rparr>) = PInt 2"
    by (simp add: get_hotel_def ex_hotel_def hotels_save)
  have hmo: "hotel_manager ex_orphan = Some \<lparr>hotels = [], hotels_file = JsonList []\<rparr>"
    by (simp add: ex_orphan_def)
  have o: "get_reservation ex_orphan (PStr ''r1'') = Some ex_reservation \<and>
           hotels_inv \<lparr>hotels = [], hotels_file = JsonList []\<rparr>"
    by (simp add: get_reservation_def ex_orphan_def ex_booked_def hotels_inv_def)
  have n: "get_hotel \<lparr>hotels = [], hotels_file = JsonList []\<rparr> (res_hotel_id ex_reservation)
             = None"
    by (simp add: get_hotel_def)
  from create_cancel_room_count [OF hmo, of _ _ _ _ _ _ _ "PStr ''r1''" ex_reservation] o n
  have orphan: "cancel_reservation ex_orphan (PStr ''r1'')
     = (Inr True, ReservationManager_save
          (ex_orphan\<lparr>hotel_manager := Some \<lparr>hotels = [], hotels_file = JsonList []\<rparr>,
                      reservations := AList.delete (PStr ''r1'') (reservations ex_orphan)\<rparr>))"
    by auto
  from create_cancel_room_count [OF hm, of "''r1''" "PStr ''c1''" "PStr ''h1''"
         "PStr ''2026-07-01''" "PStr ''2026-07-05''" ?r "snd ?c" _ _ _ _ _ ex_hotel]
       create_cancel_room_count [OF hm1, of _ _ _ _ _ _ _ "PStr ''r1''" ?r
         "ex_hotel\<lparr>rooms_available := PInt 0\<rparr>" 0 2]
       c h r1 g h1
  have "hotel_rooms ex_rm (PStr ''h1'') = Some (PInt 1) \<and>
   hotel_rooms (snd ?c) (PStr ''h1'') = Some (PInt 0) \<and>
   fst (cancel_reservation (snd ?c) (PStr ''r1'')) = Inr True \<and>
   hotel_rooms (snd (cancel_reservation (snd ?c) (PStr ''r1''))) (PStr ''h1'') = Some (PInt 1)"
    by auto
  with orphan o n show ?thesis by simp
qed

text \<open>
  C1, as the claim states it, fails: a successful \<open>cancel_reservation\<close> need not raise
  the count. A hotel with one room is created and booked; \<open>modify_hotel\<close> sets
  \<open>rooms_available\<close> back to 1; the cancellation of the reservation succeeds and the
  count is 1 before and after it.
\<close>

theorem cancel_at_capacity_count_unchanged:
  "get_reservation ex_refilled (PStr ''r1'') \<noteq> None \<and>
   hotel_rooms ex_refilled (PStr ''h1'') = Some (PInt 1) \<and>
   fst (cancel_reservation ex_refilled (PStr ''r1'')) = Inr True \<and>
   hotel_rooms (snd (cancel_reservation ex_refilled (PStr ''r1''))) (PStr ''h1'') = Some (PInt 1)"
  by code_simp

section \<open>Saving and loading a collection\<close>

lemma update_fresh: "k \<notin> fst ` set al \<Longrightarrow> AList.update k v al = al @ [(k, v)]"
  by (induction al) auto

lemma set_update_subset: "set (AList.update k v al) \<subseteq> insert (k, v) (set al)"
  by (induction al) auto

lemma set_delete_subset: "set (AList.delete k al) \<subseteq> set al"
  by (auto simp: AList.delete_eq)

lemma list_all_update:
  "P (k, v) \<Longrightarrow> list_all P al \<Longrightarrow> list_all P (AList.update k v al)"
  using set_update_subset [of k v al] by (auto simp: list_all_iff)

lemma list_all_delete: "list_all P al \<Longrightarrow> list_all P (AList.delete k al)"
  using set_delete_subset [of k al] by (auto simp: list_all_iff)

lemma load_records_roundtrip:
  assumes "list_all (\<lambda>(k, x). k = ident x \<and> from_dict (to_dict x) = Inr x) xs"
    and "distinct (map fst (acc @ xs))"
  shows "load_records from_dict ident (map (\<lambda>(k, x). to_dict x) xs) acc = (None, acc @ xs)"
  using assms
proof (induction xs arbitrary: acc)
  case Nil
  then show ?case by simp
next
  case (Cons p xs)
  obtain k x where p: "p = (k, x)" by (cases p)
  from Cons.prems p have kx: "k = ident x" "from_dict (to_dict x) = Inr x"
    and rest: "list_all (\<lambda>(k, x). k = ident x \<and> from_dict (to_dict x) = Inr x) xs"
    by simp_all
  from Cons.prems(2) p have fresh: "k \<notin> fst ` set acc" by auto
  from Cons.prems(2) p have d: "distinct (map fst ((acc @ [(k, x)]) @ xs))" by simp
  from Cons.IH [OF rest d] kx fresh p show ?case
    by (simp add: update_fresh)
qed

lemma keyed_valid_update:
  "keyed_valid ident validate al \<Longrightarrow> validate x = Inr () \<Longrightarrow>
   keyed_valid ident validate (AList.update (ident x) x al)"
  by (simp add: keyed_valid_def distinct_update list_all_update)

lemma keyed_valid_delete:
  "keyed_valid ident validate al \<Longrightarrow> keyed_valid ident validate (AList.delete k al)"
  by (simp add: keyed_valid_def distinct_delete list_all_delete)

lemma keyed_valid_lookup:
  "keyed_valid ident validate al \<Longrightarrow> map_of al k = Some x \<Longrightarrow> ident x = k \<and> validate x = Inr ()"
  by (auto simp: keyed_valid_def list_all_iff dest: map_of_SomeD)

lemma load_records_keyed_valid:
  assumes "\<And>r x. from_dict r = Inr x \<Longrightarrow> validate x = Inr ()"
    and "keyed_valid ident validate acc"
  shows "keyed_valid ident validate (snd (load_records from_dict ident rs acc))"
  using assms(2)
proof (induction rs arbitrary: acc)
  case Nil
  then show ?case by simp
next
  case (Cons r rs)
  show ?case
  proof (cases "from_dict r")
    case (Inl e)
    with Cons show ?thesis by simp
  next
    case (Inr x)
    with assms(1) have "validate x = Inr ()" by blast
    with Cons.prems have "keyed_valid ident validate (AList.update (ident x) x acc)"
      by (rule keyed_valid_update)
    from Cons.IH [OF this] Inr show ?thesis by simp
  qed
qed

lemma Hotel_init_valid: "Hotel_init n a t r i = Inr h \<Longrightarrow> Hotel_validate h = Inr ()"
  by (auto simp: Hotel_init_def Let_def split: sum.splits)

lemma Hotel_from_dict_valid: "Hotel_from_dict r = Inr h \<Longrightarrow> Hotel_validate h = Inr ()"
  by (auto simp: Hotel_from_dict_def split: json.splits option.splits sum.splits
           dest: Hotel_init_valid)

lemma Hotel_roundtrip:
  assumes "Hotel_validate h = Inr ()"
  shows "Hotel_from_dict (Hotel_to_dict h) = Inr h"
proof -
  from assms obtain t a where ta: "total_rooms h = PInt t" "rooms_available h = PInt a"
    "0 < t" "0 \<le> a" "a \<le> t"
    by (auto simp: Hotel_validate_Inr_iff)
  have h: "\<lparr>hotel_name = hotel_name h, hotel_address = hotel_address h, total_rooms = PInt t,
           rooms_available = PInt a, hotel_id = hotel_id h\<rparr> = h"
    using ta by (cases h) simp
  have "Hotel_from_dict (Hotel_to_dict h)
          = Hotel_init (hotel_name h) (hotel_address h) (PInt t) (PInt a) (hotel_id h)"
    using ta by (simp add: Hotel_from_dict_def Hotel_to_dict_def)
  also have "\<dots> = Inr h"
    using ta assms by (simp add: Hotel_init_def h)
  finally show ?thesis .
qed

lemma Customer_roundtrip:
  "Customer_validate c = Inr () \<Longrightarrow> Customer_from_dict (Customer_to_dict c) = Inr c"
  by (cases c) (simp add: Customer_from_dict_def Customer_to_dict_def Customer_init_def)

lemma Reservation_roundtrip:
  "Reservation_validate r = Inr () \<Longrightarrow> Reservation_from_dict (Reservation_to_dict r) = Inr r"
  by (cases r) (simp add: Reservation_from_dict_def Reservation_to_dict_def Reservation_init_def)

lemma keyed_valid_roundtrip:
  assumes "keyed_valid ident validate xs"
    and "\<And>x. validate x = Inr () \<Longrightarrow> from_dict (to_dict x) = Inr x"
  shows "load_records from_dict ident (map (\<lambda>(k, x). to_dict x) xs) [] = (None, xs)"
proof -
  from assms have "list_all (\<lambda>(k, x). k = ident x \<and> from_dict (to_dict x) = Inr x) xs"
    by (auto simp: keyed_valid_def list_all_iff)
  moreover from assms(1) have "distinct (map fst ([] @ xs))" by (simp add: keyed_valid_def)
  ultimately show ?thesis using load_records_roundtrip [of ident from_dict to_dict xs "[]"]
    by simp
qed

lemma hotels_roundtrip:
  "keyed_valid hotel_id Hotel_validate hs \<Longrightarrow>
   load_records Hotel_from_dict hotel_id (map (\<lambda>(k, h). Hotel_to_dict h) hs) [] = (None, hs)"
  by (rule keyed_valid_roundtrip) (auto intro: Hotel_roundtrip)

text \<open>
  C8. An entity that passes \<open>validate\<close> is what \<open>from_dict\<close> returns on its
  \<open>to_dict\<close>. A manager whose collection has distinct keys and holds every entity
  under its own identifier, each passing \<open>validate\<close>, keeps its collection when it
  saves and writes one record per entity; a manager constructed on that file holds the
  original collection: as many entities, in the same order, with the same field values.
  This holds for hotels, customers and reservations.
\<close>

theorem save_load_roundtrip:
  "(Hotel_validate h = Inr () \<longrightarrow> Hotel_from_dict (Hotel_to_dict h) = Inr h) \<and>
   (Customer_validate c = Inr () \<longrightarrow> Customer_from_dict (Customer_to_dict c) = Inr c) \<and>
   (Reservation_validate r = Inr () \<longrightarrow>
      Reservation_from_dict (Reservation_to_dict r) = Inr r) \<and>
   (keyed_valid hotel_id Hotel_validate (hotels hm) \<longrightarrow>
      hotels (HotelManager_save hm) = hotels hm \<and>
      hotels_file (HotelManager_save hm)
        = JsonList (map (\<lambda>(k, h). Hotel_to_dict h) (hotels hm)) \<and>
      HotelManager_init (hotels_file (HotelManager_save hm))
        = Inr \<lparr>hotels = hotels hm,
               hotels_file = JsonList (map (\<lambda>(k, h). Hotel_to_dict h) (hotels hm))\<rparr>) \<and>
   (keyed_valid customer_id Customer_validate (customers cm) \<longrightarrow>
      customers (CustomerManager_save cm) = customers cm \<and>
      customers_file (CustomerManager_save cm)
        = JsonList (map (\<lambda>(k, c). Customer_to_dict c) (customers cm)) \<and>
      CustomerManager_init (customers_file (CustomerManager_save cm))
        = Inr \<lparr>customers = customers cm,
               customers_file = JsonList (map (\<lambda>(k, c). Customer_to_dict c) (customers cm))\<rparr>) \<and>
   (keyed_valid reservation_id Reservation_validate (reservations rm) \<longrightarrow>
      reservations (ReservationManager_save rm) = reservations rm \<and>
      reservations_file (ReservationManager_save rm)
        = JsonList (map (\<lambda>(k, r). Reservation_to_dict r) (reservations rm)) \<and>
      ReservationManager_init (reservations_file (ReservationManager_save rm)) hmo cmo
        = Inr \<lparr>reservations = reservations rm,
               reservations_file
                 = JsonList (map (\<lambda>(k, r). Reservation_to_dict r) (reservations rm)),
               hotel_manager = hmo, customer_manager = cmo\<rparr>)"
proof -
  have e1: "Hotel_validate h = Inr () \<longrightarrow> Hotel_from_dict (Hotel_to_dict h) = Inr h"
    by (simp add: Hotel_roundtrip)
  have e2: "Customer_validate c = Inr () \<longrightarrow> Customer_from_dict (Customer_to_dict c) = Inr c"
    by (simp add: Customer_roundtrip)
  have e3: "Reservation_validate r = Inr () \<longrightarrow>
              Reservation_from_dict (Reservation_to_dict r) = Inr r"
    by (simp add: Reservation_roundtrip)
  have m1: "hotels (HotelManager_save hm) = hotels hm \<and>
      hotels_file (HotelManager_save hm)
        = JsonList (map (\<lambda>(k, h). Hotel_to_dict h) (hotels hm)) \<and>
      HotelManager_init (hotels_file (HotelManager_save hm))
        = Inr \<lparr>hotels = hotels hm,
               hotels_file = JsonList (map (\<lambda>(k, h). Hotel_to_dict h) (hotels hm))\<rparr>"
    if "keyed_valid hotel_id Hotel_validate (hotels hm)"
    using hotels_roundtrip [OF that]
    by (simp add: HotelManager_init_def HotelManager_load_def HotelManager_save_def
          load_json_def save_json_def)
  have m2: "customers (CustomerManager_save cm) = customers cm \<and>
      customers_file (CustomerManager_save cm)
        = JsonList (map (\<lambda>(k, c). Customer_to_dict c) (customers cm)) \<and>
      CustomerManager_init (customers_file (CustomerManager_save cm))
        = Inr \<lparr>customers = customers cm,
               customers_file = JsonList (map (\<lambda>(k, c). Customer_to_dict c) (customers cm))\<rparr>"
    if kv: "keyed_valid customer_id Customer_validate (customers cm)"
  proof -
    from kv have "load_records Customer_from_dict customer_id
               (map (\<lambda>(k, c). Customer_to_dict c) (customers cm)) [] = (None, customers cm)"
      by (rule keyed_valid_roundtrip) (auto intro: Customer_roundtrip)
    then show ?thesis
      by (simp add: CustomerManager_init_def CustomerManager_load_def CustomerManager_save_def
            load_json_def save_json_def)
  qed
  have m3: "reservations (ReservationManager_save rm) = reservations rm \<and>
      reservations_file (ReservationManager_save rm)
        = JsonList (map (\<lambda>(k, r). Reservation_to_dict r) (reservations rm)) \<and>
      ReservationManager_init (reservations_file (ReservationManager_save rm)) hmo cmo
        = Inr \<lparr>reservations = reservations rm,
               reservations_file
                 = JsonList (map (\<lambda>(k, r). Reservation_to_dict r) (reservations rm)),
               hotel_manager = hmo, customer_manager = cmo\<rparr>"
    if kv: "keyed_valid reservation_id Reservation_validate (reservations rm)"
  proof -
    from kv have "load_records Reservation_from_dict reservation_id
               (map (\<lambda>(k, r). Reservation_to_dict r) (reservations rm)) []
             = (None, reservations rm)"
      by (rule keyed_valid_roundtrip) (auto intro: Reservation_roundtrip)
    then show ?thesis
      by (simp add: ReservationManager_init_def ReservationManager_load_def
            ReservationManager_save_def load_json_def save_json_def)
  qed
  from e1 e2 e3 m1 m2 m3 show ?thesis by blast
qed

theorem save_load_roundtrip_witness:
  "keyed_valid hotel_id Hotel_validate (hotels ex_hm_two) \<and>
   length (hotels ex_hm_two) = 2 \<and> hotels_file ex_hm_two = Absent \<and>
   HotelManager_init (hotels_file (HotelManager_save ex_hm_two))
     = Inr \<lparr>hotels = hotels ex_hm_two,
            hotels_file = JsonList (map (\<lambda>(k, h). Hotel_to_dict h) (hotels ex_hm_two))\<rparr> \<and>
   keyed_valid customer_id Customer_validate (customers ex_cm) \<and>
   CustomerManager_init (customers_file (CustomerManager_save ex_cm))
     = Inr \<lparr>customers = customers ex_cm,
            customers_file
              = JsonList (map (\<lambda>(k, c). Customer_to_dict c) (customers ex_cm))\<rparr> \<and>
   keyed_valid reservation_id Reservation_validate (reservations ex_booked) \<and>
   ReservationManager_init (reservations_file (ReservationManager_save ex_booked)) None None
     = Inr \<lparr>reservations = reservations ex_booked,
            reservations_file
              = JsonList (map (\<lambda>(k, r). Reservation_to_dict r) (reservations ex_booked)),
            hotel_manager = None, customer_manager = None\<rparr> \<and>
   Hotel_from_dict (Hotel_to_dict ex_hotel) = Inr ex_hotel \<and>
   Customer_from_dict (Customer_to_dict ex_customer) = Inr ex_customer \<and>
   Reservation_from_dict (Reservation_to_dict ex_reservation) = Inr ex_reservation"
proof -
  have h: "keyed_valid hotel_id Hotel_validate (hotels ex_hm_two)" by code_simp
  have c: "keyed_valid customer_id Customer_validate (customers ex_cm)" by code_simp
  have r: "keyed_valid reservation_id Reservation_validate (reservations ex_booked)"
    by code_simp
  have v: "Hotel_validate ex_hotel = Inr ()" "Customer_validate ex_customer = Inr ()"
    "Reservation_validate ex_reservation = Inr ()"
    by code_simp+
  have l: "length (hotels ex_hm_two) = 2 \<and> hotels_file ex_hm_two = Absent"
    by (simp add: ex_hm_two_def)
  from save_load_roundtrip
         [of ex_hotel ex_customer ex_reservation ex_hm_two ex_cm ex_booked None None] h c r v l
  show ?thesis by blast
qed

section \<open>The invariant of the room count\<close>

lemma Hotel_validate_inv: "Hotel_validate h = Inr () \<Longrightarrow> hotel_inv h"
  by (auto simp: Hotel_validate_Inr_iff hotel_inv_def)

lemma hotels_inv_update:
  "hotel_inv h \<Longrightarrow> list_all (\<lambda>(k, h). hotel_inv h) hs \<Longrightarrow>
   list_all (\<lambda>(k, h). hotel_inv h) (AList.update k h hs)"
  by (rule list_all_update) simp_all

lemma hotels_inv_lookup:
  "list_all (\<lambda>(k, h). hotel_inv h) hs \<Longrightarrow> map_of hs k = Some h \<Longrightarrow> hotel_inv h"
  by (auto simp: list_all_iff dest: map_of_SomeD)

lemma load_records_hotels_inv:
  "list_all (\<lambda>(k, h). hotel_inv h) acc \<Longrightarrow>
   list_all (\<lambda>(k, h). hotel_inv h) (snd (load_records Hotel_from_dict hotel_id rs acc))"
proof (induction rs arbitrary: acc)
  case Nil
  then show ?case by simp
next
  case (Cons r rs)
  show ?case
  proof (cases "Hotel_from_dict r")
    case (Inl e)
    with Cons show ?thesis by simp
  next
    case (Inr h)
    then have "hotel_inv h" by (intro Hotel_validate_inv Hotel_from_dict_valid)
    with Cons.prems have "list_all (\<lambda>(k, h). hotel_inv h) (AList.update (hotel_id h) h acc)"
      by (intro hotels_inv_update)
    from Cons.IH [OF this] Inr show ?thesis by simp
  qed
qed

lemma HotelManager_load_inv: "hotels_inv (snd (HotelManager_load hm))"
  using load_records_hotels_inv [of "[]" "load_json (hotels_file hm)"]
  by (auto simp: HotelManager_load_def hotels_inv_def split: prod.splits)

lemma HotelManager_init_inv: "HotelManager_init f = Inr hm \<Longrightarrow> hotels_inv hm"
  using HotelManager_load_inv [of "\<lparr>hotels = [], hotels_file = f\<rparr>"]
  by (auto simp: HotelManager_init_def split: prod.splits option.splits)

lemma hotels_inv_save: "hotels_inv (HotelManager_save hm) = hotels_inv hm"
  by (simp add: hotels_inv_def hotels_save)

text \<open>
  C3. If every hotel of the collection satisfies \<open>0 <= rooms_available <= total_rooms\<close>,
  then so does every hotel of the collection after \<open>create_hotel\<close>, \<open>modify_hotel\<close>,
  \<open>reserve_room\<close> and \<open>cancel_room\<close>, whatever the call returns or raises. A
  manager starts within the invariant (\<open>HotelManager_init_inv\<close>).
\<close>

theorem hotel_invariant_preserved:
  assumes "hotels_inv hm"
  shows "hotels_inv (snd (create_hotel hm new_id name address tot)) \<and>
         hotels_inv (snd (modify_hotel hm hid kwargs)) \<and>
         hotels_inv (snd (reserve_room hm hid)) \<and>
         hotels_inv (snd (cancel_room hm hid))"
proof (intro conjI)
  from assms have inv: "list_all (\<lambda>(k, h). hotel_inv h) (hotels hm)"
    by (simp add: hotels_inv_def)
  show "hotels_inv (snd (create_hotel hm new_id name address tot))"
  proof (cases "Hotel_init name address tot (PInt (- 1)) (PStr new_id)")
    case (Inl e)
    with assms show ?thesis by (simp add: create_hotel_def)
  next
    case (Inr h)
    then have "hotel_inv h" by (intro Hotel_validate_inv Hotel_init_valid)
    with inv Inr show ?thesis
      by (simp add: create_hotel_def hotels_inv_def hotels_inv_update hotels_save)
  qed
  show "hotels_inv (snd (modify_hotel hm hid kwargs))"
  proof (cases "get_hotel hm hid")
    case None
    with assms show ?thesis by (simp add: modify_hotel_def)
  next
    case (Some hotel)
    let ?h = "hotel_setattrs hotel kwargs"
    let ?hm = "hm\<lparr>hotels := AList.update hid ?h (hotels hm)\<rparr>"
    show ?thesis
    proof (cases "Hotel_validate ?h")
      case (Inl e)
      then have "e = ValueError" by (rule Hotel_validate_ValueError)
      with Inl Some HotelManager_load_inv [of ?hm] show ?thesis
        by (auto simp: modify_hotel_def Let_def split: prod.splits option.splits)
    next
      case (Inr u)
      then have "hotel_inv ?h" by (intro Hotel_validate_inv) simp
      with inv Inr Some show ?thesis
        by (simp add: modify_hotel_def Let_def hotels_inv_def hotels_inv_update hotels_save)
    qed
  qed
  show "hotels_inv (snd (reserve_room hm hid))"
  proof (cases "get_hotel hm hid")
    case None
    with assms show ?thesis by (simp add: reserve_room_def)
  next
    case (Some h)
    with inv have "hotel_inv h" by (auto simp: get_hotel_def intro: hotels_inv_lookup)
    then obtain a t where at: "rooms_available h = PInt a" "total_rooms h = PInt t"
      "0 \<le> a" "a \<le> t"
      by (auto simp: hotel_inv_def split: pyval.splits)
    then have "0 < a \<Longrightarrow> hotel_inv (h\<lparr>rooms_available := PInt (a - 1)\<rparr>)"
      by (simp add: hotel_inv_def)
    with inv assms Some at show ?thesis
      by (simp add: reserve_room_def hotels_inv_def hotels_inv_update hotels_save)
  qed
  show "hotels_inv (snd (cancel_room hm hid))"
  proof (cases "get_hotel hm hid")
    case None
    with assms show ?thesis by (simp add: cancel_room_def)
  next
    case (Some h)
    with inv have "hotel_inv h" by (auto simp: get_hotel_def intro: hotels_inv_lookup)
    then obtain a t where at: "rooms_available h = PInt a" "total_rooms h = PInt t"
      "0 \<le> a" "a \<le> t"
      by (auto simp: hotel_inv_def split: pyval.splits)
    show ?thesis
    proof (cases "a < t")
      case True
      with at have "hotel_inv (h\<lparr>rooms_available := PInt (a + 1)\<rparr>)"
        by (simp add: hotel_inv_def)
      with inv cancel_room_success [OF Some at(1,2) True] show ?thesis
        by (simp add: hotels_inv_def hotels_inv_update hotels_save)
    next
      case False
      then have "t \<le> a" by simp
      from cancel_room_full [OF Some at(1,2) this] assms show ?thesis by simp
    qed
  qed
qed


theorem hotel_invariant_preserved_witness:
  "hotels_inv ex_hm \<and>
   hotels_inv (snd (create_hotel ex_hm ''h2'' (PStr ''G'') (PStr ''B'') (PInt 3))) \<and>
   hotels_inv (snd (modify_hotel ex_hm (PStr ''h1'') [(''total_rooms'', PInt 0)])) \<and>
   hotels_inv (snd (reserve_room ex_hm (PStr ''h1''))) \<and>
   hotels_inv (snd (cancel_room ex_hm (PStr ''h1'')))"
proof -
  have i: "hotels_inv ex_hm"
    by (simp add: hotels_inv_def ex_hm_def hotel_inv_def ex_hotel_def)
  from hotel_invariant_preserved [OF i] i show ?thesis by blast
qed

section \<open>Rollback of an invalid modification\<close>

text \<open>
  A manager is in sync when its collection is what \<open>_load\<close> yields from its file. The
  constructor establishes this and every operation of the hotel manager keeps it, since
  every mutation is followed by \<open>_save\<close>.
\<close>

lemma HotelManager_load_file:
  "hotels_file (snd (HotelManager_load hm)) = hotels_file hm"
  by (simp add: HotelManager_load_def split: prod.splits)

lemma HotelManager_load_keyed_valid:
  "keyed_valid hotel_id Hotel_validate (hotels (snd (HotelManager_load hm)))"
  using load_records_keyed_valid
    [of Hotel_from_dict Hotel_validate hotel_id "[]" "load_json (hotels_file hm)"]
  by (auto simp: HotelManager_load_def keyed_valid_def Hotel_from_dict_valid split: prod.splits)

lemma in_sync_keyed_valid: "in_sync hm \<Longrightarrow> keyed_valid hotel_id Hotel_validate (hotels hm)"
  using HotelManager_load_keyed_valid [of hm] by (simp add: in_sync_def)

lemma keyed_valid_in_sync:
  "keyed_valid hotel_id Hotel_validate (hotels hm) \<Longrightarrow> in_sync (HotelManager_save hm)"
  using hotels_roundtrip [of "hotels hm"]
  by (simp add: in_sync_def HotelManager_load_def HotelManager_save_def load_json_def
        save_json_def)

lemma HotelManager_load_idem:
  "HotelManager_load hm = (None, hm') \<Longrightarrow> in_sync hm'"
  by (auto simp: in_sync_def HotelManager_load_def split: prod.splits)

lemma HotelManager_init_in_sync: "HotelManager_init f = Inr hm \<Longrightarrow> in_sync hm"
  by (auto simp: HotelManager_init_def split: prod.splits option.splits
           dest: HotelManager_load_idem)

lemma hotel_setattrs_id: "hotel_id (hotel_setattrs h kwargs) = hotel_id h"
  by (induction h kwargs rule: hotel_setattrs.induct) auto

lemma in_sync_create_hotel:
  assumes "in_sync hm"
  shows "in_sync (snd (create_hotel hm new_id name address tot))"
proof (cases "Hotel_init name address tot (PInt (- 1)) (PStr new_id)")
  case (Inl e)
  with assms show ?thesis by (simp add: create_hotel_def)
next
  case (Inr h)
  then have "Hotel_validate h = Inr ()" by (rule Hotel_init_valid)
  with in_sync_keyed_valid [OF assms]
  have "keyed_valid hotel_id Hotel_validate (AList.update (hotel_id h) h (hotels hm))"
    by (rule keyed_valid_update)
  then have "in_sync (HotelManager_save (hm\<lparr>hotels := AList.update (hotel_id h) h (hotels hm)\<rparr>))"
    by (intro keyed_valid_in_sync) simp
  with Inr show ?thesis by (simp add: create_hotel_def)
qed

lemma in_sync_delete_hotel:
  assumes "in_sync hm"
  shows "in_sync (snd (delete_hotel hm hid))"
proof -
  from in_sync_keyed_valid [OF assms]
  have "keyed_valid hotel_id Hotel_validate (AList.delete hid (hotels hm))"
    by (rule keyed_valid_delete)
  then have "in_sync (HotelManager_save (hm\<lparr>hotels := AList.delete hid (hotels hm)\<rparr>))"
    by (intro keyed_valid_in_sync) simp
  with assms show ?thesis by (simp add: delete_hotel_def)
qed

lemma in_sync_replace:
  assumes "in_sync hm" "get_hotel hm hid = Some h" "Hotel_validate h' = Inr ()"
    and "hotel_id h' = hotel_id h"
  shows "in_sync (HotelManager_save (hm\<lparr>hotels := AList.update hid h' (hotels hm)\<rparr>))"
proof -
  note kv = in_sync_keyed_valid [OF assms(1)]
  from keyed_valid_lookup [OF kv] assms(2) have "hotel_id h = hid"
    by (simp add: get_hotel_def)
  with assms(4) keyed_valid_update [OF kv assms(3)]
  have "keyed_valid hotel_id Hotel_validate (AList.update hid h' (hotels hm))" by simp
  then show ?thesis by (intro keyed_valid_in_sync) simp
qed

lemma in_sync_reserve_room:
  assumes "in_sync hm"
  shows "in_sync (snd (reserve_room hm hid))"
proof (cases "get_hotel hm hid")
  case None
  with assms show ?thesis by (simp add: reserve_room_def)
next
  case (Some h)
  from keyed_valid_lookup [OF in_sync_keyed_valid [OF assms]] Some
  have v: "Hotel_validate h = Inr ()" by (simp add: get_hotel_def)
  then obtain t a where ta: "total_rooms h = PInt t" "rooms_available h = PInt a"
    "0 < t" "0 \<le> a" "a \<le> t"
    by (auto simp: Hotel_validate_Inr_iff)
  show ?thesis
  proof (cases "0 < a")
    case True
    with v ta have "Hotel_validate (h\<lparr>rooms_available := PInt (a - 1)\<rparr>) = Inr ()"
      by (simp add: Hotel_validate_Inr_iff)
    from in_sync_replace [OF assms Some this] reserve_room_success [OF Some ta(2) True]
    show ?thesis by simp
  next
    case False
    with Some ta assms show ?thesis by (simp add: reserve_room_def)
  qed
qed

lemma in_sync_cancel_room:
  assumes "in_sync hm"
  shows "in_sync (snd (cancel_room hm hid))"
proof (cases "get_hotel hm hid")
  case None
  with assms show ?thesis by (simp add: cancel_room_def)
next
  case (Some h)
  from keyed_valid_lookup [OF in_sync_keyed_valid [OF assms]] Some
  have v: "Hotel_validate h = Inr ()" by (simp add: get_hotel_def)
  then obtain t a where ta: "total_rooms h = PInt t" "rooms_available h = PInt a"
    "0 < t" "0 \<le> a" "a \<le> t"
    by (auto simp: Hotel_validate_Inr_iff)
  show ?thesis
  proof (cases "a < t")
    case True
    with v ta have "Hotel_validate (h\<lparr>rooms_available := PInt (a + 1)\<rparr>) = Inr ()"
      by (simp add: Hotel_validate_Inr_iff)
    from in_sync_replace [OF assms Some this] cancel_room_success [OF Some ta(2,1) True]
    show ?thesis by simp
  next
    case False
    then have "t \<le> a" by simp
    from cancel_room_full [OF Some ta(2,1) this] assms show ?thesis by simp
  qed
qed

lemma modify_hotel_rejected:
  assumes "get_hotel hm hid = Some h" "Hotel_validate (hotel_setattrs h kwargs) \<noteq> Inr ()"
  shows "modify_hotel hm hid kwargs =
           (case HotelManager_load hm of
              (None, hm') \<Rightarrow> (Inr None, hm')
            | (Some e, hm') \<Rightarrow> (Inl e, hm'))"
proof -
  from assms(2) Hotel_validate_cases [of "hotel_setattrs h kwargs"]
  have "Hotel_validate (hotel_setattrs h kwargs) = Inl ValueError" by blast
  with assms(1) show ?thesis
    by (simp add: modify_hotel_def Let_def HotelManager_load_def split: prod.splits)
qed

lemma in_sync_modify_hotel:
  assumes "in_sync hm"
  shows "in_sync (snd (modify_hotel hm hid kwargs))"
proof (cases "get_hotel hm hid")
  case None
  with assms show ?thesis by (simp add: modify_hotel_def)
next
  case (Some h)
  show ?thesis
  proof (cases "Hotel_validate (hotel_setattrs h kwargs) = Inr ()")
    case True
    from in_sync_replace [OF assms Some True] Some True show ?thesis
      by (simp add: modify_hotel_def Let_def hotel_setattrs_id)
  next
    case False
    from modify_hotel_rejected [OF Some False] assms show ?thesis
      by (simp add: in_sync_def)
  qed
qed

text \<open>
  C6. A \<open>modify_hotel\<close> of an existing hotel whose updates make \<open>validate\<close> fail
  leaves the backing file as it was, and, for a manager in sync with its file, returns
  \<open>None\<close> with the manager (collection and file) exactly as before the call: the
  modified hotel is neither kept in memory nor written.
\<close>

theorem modify_hotel_invalid_rolls_back:
  assumes "get_hotel hm hid = Some h"
    and "Hotel_validate (hotel_setattrs h kwargs) \<noteq> Inr ()"
  shows "hotels_file (snd (modify_hotel hm hid kwargs)) = hotels_file hm \<and>
         (in_sync hm \<longrightarrow> modify_hotel hm hid kwargs = (Inr None, hm))"
proof -
  note m = modify_hotel_rejected [OF assms]
  obtain exc hm' where l: "HotelManager_load hm = (exc, hm')"
    by (cases "HotelManager_load hm")
  with HotelManager_load_file [of hm] have "hotels_file hm' = hotels_file hm"
    by simp
  with l have "hotels_file (snd (modify_hotel hm hid kwargs)) = hotels_file hm"
    unfolding m by (cases exc) simp_all
  moreover have "in_sync hm \<Longrightarrow> modify_hotel hm hid kwargs = (Inr None, hm)"
    unfolding m by (simp add: in_sync_def)
  ultimately show ?thesis by blast
qed

theorem modify_hotel_invalid_rolls_back_witness:
  "get_hotel ex_hm (PStr ''h1'') = Some ex_hotel \<and>
   Hotel_validate (hotel_setattrs ex_hotel [(''total_rooms'', PInt 0)]) \<noteq> Inr () \<and>
   in_sync ex_hm \<and>
   modify_hotel ex_hm (PStr ''h1'') [(''total_rooms'', PInt 0)] = (Inr None, ex_hm)"
proof -
  have g: "get_hotel ex_hm (PStr ''h1'') = Some ex_hotel"
    by (simp add: get_hotel_def ex_hm_def)
  have v: "Hotel_validate (hotel_setattrs ex_hotel [(''total_rooms'', PInt 0)]) \<noteq> Inr ()"
    by (simp add: Hotel_validate_def ex_hotel_def)
  have s: "in_sync ex_hm"
    unfolding in_sync_def by code_simp
  from modify_hotel_invalid_rolls_back [OF g v] g v s show ?thesis by blast
qed

end
